theory Spec2Isabelle
  imports Complex_Main
begin

section \<open>The Flappy Bird state-transition engine\<close>

text \<open>
  The engine is a set of pure functions over an immutable \<open>State\<close>.  Arrays are
  lists; \<open>undefined\<close> and \<open>null\<close> are explicit values where the code can produce them.

  A JavaScript \<open>number\<close> is modelled as a \<open>real\<close>.  Integer arithmetic is modelled
  as JavaScript computes it: sums, products and remainders of integers are exact below
  \<open>2^53\<close>, which covers the times, counters, lives and identifiers of the game, and the
  one computation that leaves this range, the product and sum in \<open>RNG.hash\<close>, is
  rounded to the nearest double (\<open>to_double\<close>).  Fractions, which JavaScript rounds as
  well, are exact in the model: positions, velocities and the scaled random values may
  differ from the program's in the last bits of the double.

  Record selectors are global constants, so the fields \<open>x\<close>, \<open>y\<close>, \<open>id\<close>, \<open>type\<close>
  and \<open>pos\<close> of the source carry the name of their type as a prefix.
\<close>

subsection \<open>Data model (types.ts)\<close>

record Vec2 =
  vec_x :: real
  vec_y :: real

record Bird =
  pos :: Vec2
  vel :: Vec2
  radius :: real

record Pipe =
  pipe_id :: real
  pipe_x :: real
  gapY :: real
  gapHeight :: real
  width :: real
  passed :: bool

record GameHistory =
  birdPositions :: "Vec2 list"
  timestamp :: real

record PipeData =
  pd_gapY :: real
  pd_gapHeight :: real
  spawnTime :: real

datatype PowerUpType = Shrink | SlowDown

record PowerUp =
  pu_id :: real
  pu_type :: PowerUpType
  pu_pos :: Vec2
  collected :: bool

record State =
  bird :: Bird
  pipes :: "Pipe list"
  powerUps :: "PowerUp list"
  score :: real
  lives :: real
  gameEnd :: bool
  gameWon :: bool
  gameStarted :: bool
  isPaused :: bool
  countdown :: real
  countdownTime :: real
  time :: real
  gameTime :: real
  pipeSpawnQueue :: "PipeData list"
  originalPipeSpawnQueue :: "PipeData list"
  gameHistory :: "GameHistory list"
  currentRun :: "Vec2 list"
  ghostBirds :: "Vec2 list"
  gameCount :: real
  rngSeed :: real
  shrinkActive :: bool
  shrinkEndTime :: real
  slowDownActive :: bool
  slowDownEndTime :: real
  slowDownMultiplier :: real
  powerUpsSpawned :: real
  powerUpsCollected :: real
  pipeSpawnIndex :: real
  lastCollisionTime :: real
  lastCollisionPipeId :: real

subsection \<open>Deterministic random numbers (util.ts)\<close>

text \<open>
  The remainder operator \<open>%\<close> of JavaScript truncates the quotient towards zero, so
  the result has the sign of the dividend.
\<close>

definition js_rem :: "real \<Rightarrow> real \<Rightarrow> real" where
  "js_rem a b =
     a - b * real_of_int (if 0 \<le> a / b then \<lfloor>a / b\<rfloor> else \<lceil>a / b\<rceil>)"

text \<open>
  \<open>RNG.hash\<close> multiplies and adds in doubles.  For a seed above about \<open>8 * 10^6\<close> (the
  initial seed 123456789 is one) the product exceeds \<open>2^53\<close> and is rounded to 53
  significant bits, to the nearest double, ties to the even one; so is the sum.
  \<open>to_double\<close> is this rounding for a value of magnitude \<open>2^53\<close> or more, where the
  doubles are the multiples of \<open>2^(e - 52)\<close> for the binary exponent \<open>e\<close> of the value;
  below \<open>2^53\<close> it leaves the value as it is, which is what JavaScript does to an
  integer.  Overflow to infinity (beyond \<open>2^1024\<close>) is not modelled.  The remainder is
  exact in doubles.
\<close>

definition round_half_even :: "real \<Rightarrow> int" where
  "round_half_even q =
     (let f = \<lfloor>q\<rfloor>; d = q - real_of_int f
      in if d < 1 / 2 then f else if d > 1 / 2 then f + 1
         else if even f then f else f + 1)"

fun bit_length :: "nat \<Rightarrow> nat" where
  "bit_length n = (if n = 0 then 0 else Suc (bit_length (n div 2)))"

declare bit_length.simps [simp del]

definition to_double :: "real \<Rightarrow> real" where
  "to_double x =
     (if \<bar>x\<bar> < 2 ^ 53 then x
      else
        let e = bit_length (nat \<lfloor>\<bar>x\<bar>\<rfloor>) - 1;
            u = 2 ^ (e - 52)
        in u * real_of_int (round_half_even (x / u)))"

definition RNG_m :: real where "RNG_m = 2147483648"
definition RNG_a :: real where "RNG_a = 1103515245"
definition RNG_c :: real where "RNG_c = 12345"

definition hash :: "real \<Rightarrow> real" where
  "hash seed = js_rem (to_double (to_double (RNG_a * seed) + RNG_c)) RNG_m"

definition scale01 :: "real \<Rightarrow> real" where
  "scale01 h = h / (RNG_m - 1)"

record RandomResult =
  rand_value :: real
  rand_seed :: real

definition randomBetween :: "real \<Rightarrow> real \<Rightarrow> real \<Rightarrow> RandomResult" where
  "randomBetween currentSeed minValue maxValue =
     (let nextSeed = hash currentSeed;
          randomValue = scale01 nextSeed * (maxValue - minValue) + minValue
      in \<lparr>rand_value = randomValue, rand_seed = nextSeed\<rparr>)"

definition clamp :: "real \<Rightarrow> real \<Rightarrow> real \<Rightarrow> real" where
  "clamp inputValue minBound maxBound = max minBound (min maxBound inputValue)"

subsection \<open>Constants and entity factories\<close>

definition CANVAS_WIDTH :: real where "CANVAS_WIDTH = 600"
definition CANVAS_HEIGHT :: real where "CANVAS_HEIGHT = 400"

definition Birb_WIDTH :: real where "Birb_WIDTH = 42"
definition Birb_HEIGHT :: real where "Birb_HEIGHT = 30"
definition Birb_INITIAL_X :: real where "Birb_INITIAL_X = CANVAS_WIDTH * 0.3"
definition Birb_INITIAL_Y :: real where "Birb_INITIAL_Y = CANVAS_HEIGHT / 2"

definition PIPE_WIDTH :: real where "PIPE_WIDTH = 50"
definition PIPE_SPEED :: real where "PIPE_SPEED = 3"
definition GRAVITY :: real where "GRAVITY = 0.5"
definition FLAP_STRENGTH :: real where "FLAP_STRENGTH = - 7"
definition BOUNCE_VELOCITY_MIN :: real where "BOUNCE_VELOCITY_MIN = 4"
definition BOUNCE_VELOCITY_MAX :: real where "BOUNCE_VELOCITY_MAX = 7"
definition COLLISION_COOLDOWN_MS :: real where "COLLISION_COOLDOWN_MS = 500"
definition TICK_RATE_MS :: real where "TICK_RATE_MS = 16"
definition INITIAL_LIVES :: real where "INITIAL_LIVES = 3"
definition OFFSCREEN_THRESHOLD :: real where "OFFSCREEN_THRESHOLD = - 50"
definition COUNTDOWN_DURATION_MS :: real where "COUNTDOWN_DURATION_MS = 1000"
definition POWERUP_SIZE :: real where "POWERUP_SIZE = 20"
definition POWERUP_SPEED :: real where "POWERUP_SPEED = 1"
definition SHRINK_DURATION :: real where "SHRINK_DURATION = 6000"
definition SHRINK_SCALE :: real where "SHRINK_SCALE = 0.6"
definition SLOW_DOWN_DURATION :: real where "SLOW_DOWN_DURATION = 8000"
definition SLOW_DOWN_MIN_MULTIPLIER :: real where "SLOW_DOWN_MIN_MULTIPLIER = 0.3"

definition createBird :: "real \<Rightarrow> real \<Rightarrow> Bird" where
  "createBird x y =
     \<lparr>pos = \<lparr>vec_x = x, vec_y = y\<rparr>,
      vel = \<lparr>vec_x = 0, vec_y = 0\<rparr>,
      radius = min Birb_WIDTH Birb_HEIGHT / 2 - 8\<rparr>"

definition createPipe :: "real \<Rightarrow> real \<Rightarrow> real \<Rightarrow> real \<Rightarrow> Pipe" where
  "createPipe i x gy gh =
     \<lparr>pipe_id = i, pipe_x = x,
      gapY = gy * CANVAS_HEIGHT,
      gapHeight = gh * CANVAS_HEIGHT,
      width = PIPE_WIDTH,
      passed = False\<rparr>"

definition createPowerUp :: "real \<Rightarrow> real \<Rightarrow> real \<Rightarrow> PowerUpType \<Rightarrow> PowerUp" where
  "createPowerUp i x y t =
     \<lparr>pu_id = i, pu_type = t, pu_pos = \<lparr>vec_x = x, vec_y = y\<rparr>, collected = False\<rparr>"

definition initialState :: State where
  "initialState =
     \<lparr>bird = createBird Birb_INITIAL_X Birb_INITIAL_Y,
      pipes = [],
      powerUps = [],
      score = 0,
      lives = INITIAL_LIVES,
      gameEnd = False,
      gameWon = False,
      gameStarted = False,
      isPaused = False,
      countdown = 0,
      countdownTime = 0,
      time = 0,
      gameTime = 0,
      pipeSpawnQueue = [],
      originalPipeSpawnQueue = [],
      gameHistory = [],
      currentRun = [],
      ghostBirds = [],
      gameCount = 0,
      rngSeed = 123456789,
      shrinkActive = False,
      shrinkEndTime = 0,
      slowDownActive = False,
      slowDownEndTime = 0,
      slowDownMultiplier = 1.0,
      powerUpsSpawned = 0,
      powerUpsCollected = 0,
      pipeSpawnIndex = 0,
      lastCollisionTime = 0,
      lastCollisionPipeId = - 1\<rparr>"

subsection \<open>Physics, collision and scoring helpers\<close>

definition getCurrentBirdRadius :: "State \<Rightarrow> real" where
  "getCurrentBirdRadius state =
     (let baseRadius = min Birb_WIDTH Birb_HEIGHT / 2 - 8
      in if shrinkActive state then baseRadius * SHRINK_SCALE else baseRadius)"

definition getCurrentSpeedMultiplier :: "State \<Rightarrow> real \<Rightarrow> real" where
  "getCurrentSpeedMultiplier state currentTime =
     (if \<not> slowDownActive state \<or> currentTime \<ge> slowDownEndTime state then 1.0
      else
        let elapsed = currentTime - (slowDownEndTime state - SLOW_DOWN_DURATION);
            progress = elapsed / SLOW_DOWN_DURATION;
            currentMultiplier = SLOW_DOWN_MIN_MULTIPLIER * (1 - progress) + 1.0 * progress
        in min 1.0 currentMultiplier)"

definition updatePowerUps :: "PowerUp list \<Rightarrow> PowerUp list" where
  "updatePowerUps ps =
     filter (\<lambda>powerUp. vec_x (pu_pos powerUp) + POWERUP_SIZE > OFFSCREEN_THRESHOLD)
       (map (\<lambda>powerUp.
               powerUp\<lparr>pu_pos := (pu_pos powerUp)\<lparr>vec_x := vec_x (pu_pos powerUp) - POWERUP_SPEED\<rparr>\<rparr>)
          ps)"

definition checkPowerUpCollision :: "Bird \<Rightarrow> PowerUp \<Rightarrow> bool" where
  "checkPowerUpCollision b powerUp =
     (let birdLeft = vec_x (pos b) - radius b;
          birdRight = vec_x (pos b) + radius b;
          birdTop = vec_y (pos b) - radius b;
          birdBottom = vec_y (pos b) + radius b;
          powerUpLeft = vec_x (pu_pos powerUp);
          powerUpRight = vec_x (pu_pos powerUp) + POWERUP_SIZE;
          powerUpTop = vec_y (pu_pos powerUp);
          powerUpBottom = vec_y (pu_pos powerUp) + POWERUP_SIZE
      in birdRight > powerUpLeft \<and> birdLeft < powerUpRight \<and>
         birdBottom > powerUpTop \<and> birdTop < powerUpBottom)"

record SpawnResult =
  shouldSpawnShrink :: bool
  shouldSpawnSlowDown :: bool
  nextSeed :: real

definition shouldSpawnPowerUp :: "State \<Rightarrow> real \<Rightarrow> SpawnResult" where
  "shouldSpawnPowerUp state seed =
     (let gameTimeSeconds = gameTime state / 1000;
          hasShrinkPowerUp =
            list_ex (\<lambda>p. pu_type p = Shrink \<and> \<not> collected p) (powerUps state);
          hasSlowDownPowerUp =
            list_ex (\<lambda>p. pu_type p = SlowDown \<and> \<not> collected p) (powerUps state);
          spawnShrink =
            (gameTimeSeconds \<ge> 10 \<and> gameTimeSeconds < 10.1 \<and> \<not> hasShrinkPowerUp);
          spawnSlowDown =
            (gameTimeSeconds \<ge> 20 \<and> gameTimeSeconds < 20.1 \<and> \<not> hasSlowDownPowerUp)
      in \<lparr>shouldSpawnShrink = spawnShrink,
          shouldSpawnSlowDown = spawnSlowDown,
          nextSeed = seed\<rparr>)"

definition updateBirdPosition :: "Bird \<Rightarrow> Bird" where
  "updateBirdPosition b =
     (let newVelY = vec_y (vel b) + GRAVITY;
          newPosY = vec_y (pos b) + newVelY
      in b\<lparr>pos := \<lparr>vec_x = vec_x (pos b),
                    vec_y = clamp newPosY (radius b) (CANVAS_HEIGHT - radius b)\<rparr>,
            vel := (vel b)\<lparr>vec_y := newVelY\<rparr>\<rparr>)"

definition flapBird :: "Bird \<Rightarrow> Bird" where
  "flapBird b = b\<lparr>vel := (vel b)\<lparr>vec_y := FLAP_STRENGTH\<rparr>\<rparr>"

definition bounceBird :: "Bird \<Rightarrow> real \<Rightarrow> Bird" where
  "bounceBird b bounceVelocity = b\<lparr>vel := (vel b)\<lparr>vec_y := bounceVelocity\<rparr>\<rparr>"

definition movePipes :: "real \<Rightarrow> Pipe list \<Rightarrow> Pipe list" where
  "movePipes speedMultiplier ps =
     map (\<lambda>pipe. pipe\<lparr>pipe_x := pipe_x pipe - PIPE_SPEED * speedMultiplier\<rparr>) ps"

definition removeOffscreenPipes :: "Pipe list \<Rightarrow> Pipe list" where
  "removeOffscreenPipes ps =
     filter (\<lambda>pipe. pipe_x pipe + width pipe > OFFSCREEN_THRESHOLD) ps"

definition checkBirdPipeCollision :: "Bird \<Rightarrow> Pipe \<Rightarrow> bool" where
  "checkBirdPipeCollision b pipe =
     (let birdLeft = vec_x (pos b) - radius b;
          birdRight = vec_x (pos b) + radius b;
          birdTop = vec_y (pos b) - radius b;
          birdBottom = vec_y (pos b) + radius b;
          pipeLeft = pipe_x pipe;
          pipeRight = pipe_x pipe + width pipe;
          gapTop = gapY pipe - gapHeight pipe / 2;
          gapBottom = gapY pipe + gapHeight pipe / 2
      in if birdRight > pipeLeft \<and> birdLeft < pipeRight
         then birdTop < gapTop \<or> birdBottom > gapBottom
         else False)"

definition checkBoundaryCollision :: "Bird \<Rightarrow> bool" where
  "checkBoundaryCollision b =
     (vec_y (pos b) \<le> radius b \<or> vec_y (pos b) \<ge> CANVAS_HEIGHT - radius b)"

text \<open>
  \<open>updateScore\<close> marks the pipes the bird has passed and counts the pipes of the
  marked list that are passed while the pipe at the same index of the input list
  is not.  The marked list is a \<open>map\<close> of the input list, so the index is in range.
\<close>

record ScoreResult =
  sr_score :: real
  sr_pipes :: "Pipe list"

definition updateScore :: "Bird \<Rightarrow> Pipe list \<Rightarrow> real \<Rightarrow> ScoreResult" where
  "updateScore b ps currentScore =
     (let updatedPipes =
            map (\<lambda>pipe. if \<not> passed pipe \<and> vec_x (pos b) > pipe_x pipe + width pipe
                         then pipe\<lparr>passed := True\<rparr> else pipe) ps;
          newlyPassedPipes =
            filter (\<lambda>(index, pipe). passed pipe \<and> \<not> passed (ps ! index))
              (enumerate 0 updatedPipes)
      in \<lparr>sr_score = currentScore + real (length newlyPassedPipes),
          sr_pipes = updatedPipes\<rparr>)"

record BounceResult =
  bounceVelocity :: real
  bounce_nextSeed :: real

definition calculateBounce :: "Bird \<Rightarrow> Pipe list \<Rightarrow> bool \<Rightarrow> real \<Rightarrow> BounceResult" where
  "calculateBounce b ps boundaryCollision seed =
     (let randomResult = randomBetween seed BOUNCE_VELOCITY_MIN BOUNCE_VELOCITY_MAX
      in if boundaryCollision then
           \<lparr>bounceVelocity =
              (if vec_y (pos b) \<le> radius b then rand_value randomResult
               else - rand_value randomResult),
            bounce_nextSeed = rand_seed randomResult\<rparr>
         else
           (case find (\<lambda>pipe. checkBirdPipeCollision b pipe) ps of
              Some collidedPipe \<Rightarrow>
                \<lparr>bounceVelocity =
                   (if vec_y (pos b) < gapY collidedPipe then rand_value randomResult
                    else - rand_value randomResult),
                 bounce_nextSeed = rand_seed randomResult\<rparr>
            | None \<Rightarrow>
                \<lparr>bounceVelocity = rand_value randomResult,
                 bounce_nextSeed = rand_seed randomResult\<rparr>))"

subsection \<open>The actions (state.ts)\<close>

text \<open>
  \<open>spawnPowerUpIfNeeded\<close> is a local function of \<open>Tick.apply\<close>; the \<open>newTime\<close> it
  captures from the enclosing scope is its first argument here.  It calls
  \<open>randomBetween\<close> and keeps the value only: the seed of the result is dropped.
\<close>

definition spawnPowerUpIfNeeded ::
  "real \<Rightarrow> PowerUp list \<Rightarrow> bool \<Rightarrow> PowerUpType \<Rightarrow> real \<Rightarrow> real \<Rightarrow> PowerUp list" where
  "spawnPowerUpIfNeeded newTime existingPowerUps shouldSpawn powerUpType seed idOffset =
     (if \<not> shouldSpawn then existingPowerUps
      else
        let middleStart = CANVAS_HEIGHT * 0.33;
            middleEnd = CANVAS_HEIGHT * 0.67;
            yPosition = randomBetween seed middleStart (middleEnd - POWERUP_SIZE)
        in existingPowerUps @
           [createPowerUp (newTime + idOffset) CANVAS_WIDTH (rand_value yPosition) powerUpType])"

text \<open>
  \<open>Tick.apply\<close>.  The optional chain \<open>collidedPipe?.id\<close> is \<open>undefined\<close> when no pipe
  collides; it is the option \<open>map_option pipe_id collidedPipe\<close>, and a number is never
  strictly equal to \<open>undefined\<close>.
\<close>

definition Tick_apply :: "State \<Rightarrow> State" where
  "Tick_apply currentState =
    (if gameEnd currentState \<or> \<not> gameStarted currentState \<or> isPaused currentState
     then currentState
     else
      let newTime = time currentState + TICK_RATE_MS in
      if countdown currentState > 0 then
        let elapsedSinceCountdown = newTime - countdownTime currentState;
            newCountdown =
              max 0 (3 - real_of_int \<lfloor>elapsedSinceCountdown / COUNTDOWN_DURATION_MS\<rfloor>)
        in currentState\<lparr>time := newTime, countdown := newCountdown\<rparr>
      else
      let newGameTime = gameTime currentState + TICK_RATE_MS;
          tempSlowDownActive =
            (slowDownActive currentState \<and> newTime < slowDownEndTime currentState);
          currentSpeedMultiplier =
            getCurrentSpeedMultiplier
              (currentState\<lparr>slowDownActive := tempSlowDownActive,
                             slowDownEndTime := slowDownEndTime currentState\<rparr>)
              newTime;
          currentBirdRadius = getCurrentBirdRadius currentState;
          updatedBird = (updateBirdPosition (bird currentState))\<lparr>radius := currentBirdRadius\<rparr>;
          movedPipes = movePipes currentSpeedMultiplier (pipes currentState);
          cleanedPipes = removeOffscreenPipes movedPipes;
          scoreResult = updateScore updatedBird cleanedPipes (score currentState);
          newScore = sr_score scoreResult;
          scoredPipes = sr_pipes scoreResult;
          updatedPowerUps = updatePowerUps (powerUps currentState);
          collectedPowerUps =
            filter (\<lambda>powerUp. \<not> collected powerUp \<and> checkPowerUpCollision updatedBird powerUp)
              updatedPowerUps;
          powerUpsAfterCollection =
            filter (\<lambda>powerUp. \<not> collected powerUp)
              (map (\<lambda>powerUp.
                      if list_ex (\<lambda>c. pu_id c = pu_id powerUp) collectedPowerUps
                      then powerUp\<lparr>collected := True\<rparr> else powerUp)
                 updatedPowerUps);
          shrinkActivated = list_ex (\<lambda>powerUp. pu_type powerUp = Shrink) collectedPowerUps;
          newShrinkActive =
            (shrinkActivated \<or>
             (shrinkActive currentState \<and> newTime < shrinkEndTime currentState));
          newShrinkEndTime =
            (if shrinkActivated then newTime + SHRINK_DURATION
             else shrinkEndTime currentState);
          slowDownActivated = list_ex (\<lambda>powerUp. pu_type powerUp = SlowDown) collectedPowerUps;
          newSlowDownActive =
            (slowDownActivated \<or>
             (slowDownActive currentState \<and> newTime < slowDownEndTime currentState));
          newSlowDownEndTime =
            (if slowDownActivated then newTime + SLOW_DOWN_DURATION
             else slowDownEndTime currentState);
          finalSpeedMultiplier =
            getCurrentSpeedMultiplier
              (currentState\<lparr>slowDownActive := newSlowDownActive,
                             slowDownEndTime := newSlowDownEndTime\<rparr>)
              newTime;
          newPowerUpsCollected =
            powerUpsCollected currentState + real (length collectedPowerUps);
          collidedPipe = find (\<lambda>pipe. checkBirdPipeCollision updatedBird pipe) scoredPipes;
          pipeCollision = (collidedPipe \<noteq> None);
          boundaryCollision = checkBoundaryCollision updatedBird;
          hasPhysicalCollision = (pipeCollision \<or> boundaryCollision);
          timeSinceLastCollision = newTime - lastCollisionTime currentState;
          canTakeDamage = (timeSinceLastCollision \<ge> COLLISION_COOLDOWN_MS);
          isDifferentPipe =
            (map_option pipe_id collidedPipe \<noteq> Some (lastCollisionPipeId currentState));
          hasDamageCollision = (hasPhysicalCollision \<and> (canTakeDamage \<or> isDifferentPipe));
          newCurrentRun = currentRun currentState @ [pos updatedBird];
          allPipesCleared =
            (pipeSpawnIndex currentState \<ge> real (length (pipeSpawnQueue currentState)) \<and>
             length scoredPipes = 0);
          spawnResult = shouldSpawnPowerUp currentState (rngSeed currentState);
          powerUpsWithShrink =
            spawnPowerUpIfNeeded newTime powerUpsAfterCollection
              (shouldSpawnShrink spawnResult) Shrink (nextSeed spawnResult) 0;
          workingPowerUps =
            spawnPowerUpIfNeeded newTime powerUpsWithShrink
              (shouldSpawnSlowDown spawnResult) SlowDown (nextSeed spawnResult + 1000) 1;
          newPowerUpsSpawned =
            powerUpsSpawned currentState +
            (if shouldSpawnShrink spawnResult then 1 else 0) +
            (if shouldSpawnSlowDown spawnResult then 1 else 0);
          baseState =
            currentState
              \<lparr>bird := updatedBird,
               pipes := scoredPipes,
               powerUps := workingPowerUps,
               score := newScore,
               time := newTime,
               gameTime := newGameTime,
               currentRun := newCurrentRun,
               gameEnd := allPipesCleared,
               gameWon := allPipesCleared,
               shrinkActive := newShrinkActive,
               shrinkEndTime := newShrinkEndTime,
               slowDownActive := newSlowDownActive,
               slowDownEndTime := newSlowDownEndTime,
               slowDownMultiplier := finalSpeedMultiplier,
               powerUpsSpawned := newPowerUpsSpawned,
               powerUpsCollected := newPowerUpsCollected,
               rngSeed := nextSeed spawnResult\<rparr>
      in
      if hasPhysicalCollision then
        let bounceComputation =
              calculateBounce updatedBird scoredPipes boundaryCollision (rngSeed baseState);
            bouncedBird = bounceBird (bird baseState) (bounceVelocity bounceComputation);
            newLives = (if hasDamageCollision then lives baseState - 1 else lives baseState)
        in baseState
             \<lparr>bird := bouncedBird,
              lives := newLives,
              gameEnd := (gameEnd baseState \<or> newLives \<le> 0),
              gameWon := (gameWon baseState \<and> newLives > 0),
              slowDownActive := newSlowDownActive,
              slowDownEndTime := newSlowDownEndTime,
              slowDownMultiplier := finalSpeedMultiplier,
              rngSeed := bounce_nextSeed bounceComputation,
              lastCollisionTime :=
                (if hasDamageCollision then newTime else lastCollisionTime baseState),
              lastCollisionPipeId :=
                (if hasDamageCollision
                 then (case collidedPipe of Some p \<Rightarrow> pipe_id p | None \<Rightarrow> - 1)
                 else lastCollisionPipeId baseState)\<rparr>
      else baseState)"

definition Restart_apply :: "State \<Rightarrow> State" where
  "Restart_apply currentState =
     (let newGameHistory =
            (if length (currentRun currentState) > 0
             then gameHistory currentState @
                  [\<lparr>birdPositions = currentRun currentState,
                    timestamp = time currentState\<rparr>]
             else gameHistory currentState)
      in initialState
           \<lparr>pipeSpawnQueue := originalPipeSpawnQueue currentState,
            originalPipeSpawnQueue := originalPipeSpawnQueue currentState,
            gameHistory := newGameHistory,
            gameCount := gameCount currentState + 1\<rparr>)"

definition Flap_apply :: "State \<Rightarrow> State" where
  "Flap_apply currentState =
     (if gameEnd currentState then Restart_apply currentState
      else if isPaused currentState then currentState
      else if \<not> gameStarted currentState then
        currentState\<lparr>bird := flapBird (bird currentState), gameStarted := True, gameTime := 0\<rparr>
      else currentState\<lparr>bird := flapBird (bird currentState)\<rparr>)"

definition Pause_apply :: "State \<Rightarrow> State" where
  "Pause_apply currentState =
     (if \<not> gameStarted currentState \<or> gameEnd currentState then currentState
      else if isPaused currentState then
        currentState\<lparr>isPaused := False, countdown := 3, countdownTime := time currentState\<rparr>
      else currentState\<lparr>isPaused := True, countdown := 0, countdownTime := 0\<rparr>)"

definition SpawnPipe_apply :: "PipeData \<Rightarrow> real \<Rightarrow> State \<Rightarrow> State" where
  "SpawnPipe_apply pipeData pipeId currentState =
     (let newPipe = createPipe pipeId CANVAS_WIDTH (pd_gapY pipeData) (pd_gapHeight pipeData)
      in currentState\<lparr>pipes := pipes currentState @ [newPipe],
                       pipeSpawnIndex := pipeSpawnIndex currentState + 1\<rparr>)"

text \<open>
  The five actions as data, and \<open>reduceState\<close>, which applies one.  \<open>run\<close> folds a
  list of actions over a state, as the \<open>scan\<close> of the action stream does.
\<close>

datatype Action = Tick | Flap | Pause | Restart | SpawnPipe PipeData real

fun reduceState :: "State \<Rightarrow> Action \<Rightarrow> State" where
  "reduceState s Tick = Tick_apply s"
| "reduceState s Flap = Flap_apply s"
| "reduceState s Pause = Pause_apply s"
| "reduceState s Restart = Restart_apply s"
| "reduceState s (SpawnPipe pipeData pipeId) = SpawnPipe_apply pipeData pipeId s"

fun run :: "State \<Rightarrow> Action list \<Rightarrow> State" where
  "run s [] = s"
| "run s (a # as) = run (reduceState s a) as"

subsection \<open>Ghost replay (observable.ts)\<close>

text \<open>
  Reading a JavaScript array at an index that is not one of \<open>0, \<dots>, length - 1\<close>
  gives \<open>undefined\<close>.  \<open>calculateGhostPositions\<close> guards the read with
  \<open>animationFrame < length\<close> only and afterwards removes \<open>null\<close>, so an \<open>undefined\<close>
  from a negative or fractional index would stay in the result; the slots keep
  the three cases apart.
\<close>

datatype GhostSlot = Position Vec2 | Undefined | Null

definition js_index :: "Vec2 list \<Rightarrow> real \<Rightarrow> GhostSlot" where
  "js_index xs i =
     (if 0 \<le> i \<and> i < real (length xs) \<and> real_of_int \<lfloor>i\<rfloor> = i
      then Position (xs ! nat \<lfloor>i\<rfloor>) else Undefined)"

definition calculateGhostPositions :: "GameHistory list \<Rightarrow> real \<Rightarrow> State \<Rightarrow> GhostSlot list" where
  "calculateGhostPositions historicalRecords animationFrame gameState =
     (if \<not> gameStarted gameState \<or> length historicalRecords = 0 then []
      else
        filter (\<lambda>birdPosition. birdPosition \<noteq> Null)
          (map (\<lambda>pastGameRecord.
                  if animationFrame < real (length (birdPositions pastGameRecord))
                  then js_index (birdPositions pastGameRecord) animationFrame
                  else Null)
             historicalRecords))"

subsection \<open>The values of one tick\<close>

text \<open>
  The local constants of \<open>Tick.apply\<close> that the properties below speak about, as
  functions of the state the tick starts from: the time after the tick, the speed
  multiplier, the bird after the physics step, the pipes after moving and cleaning,
  the pipes after scoring, the first pipe that the moved bird collides with, and the
  three collision flags.  \<open>gameplay\<close> holds of a state that is started, not ended,
  not paused and not counting down, where the tick runs the simulation.
\<close>

definition tick_newTime :: "State \<Rightarrow> real" where
  "tick_newTime s = time s + TICK_RATE_MS"

definition tick_speed :: "State \<Rightarrow> real" where
  "tick_speed s =
     getCurrentSpeedMultiplier
       (s\<lparr>slowDownActive := (slowDownActive s \<and> tick_newTime s < slowDownEndTime s),
          slowDownEndTime := slowDownEndTime s\<rparr>)
       (tick_newTime s)"

definition tick_updatedBird :: "State \<Rightarrow> Bird" where
  "tick_updatedBird s = (updateBirdPosition (bird s))\<lparr>radius := getCurrentBirdRadius s\<rparr>"

definition tick_cleanedPipes :: "State \<Rightarrow> Pipe list" where
  "tick_cleanedPipes s = removeOffscreenPipes (movePipes (tick_speed s) (pipes s))"

definition tick_scoredPipes :: "State \<Rightarrow> Pipe list" where
  "tick_scoredPipes s = sr_pipes (updateScore (tick_updatedBird s) (tick_cleanedPipes s) (score s))"

definition tick_collidedPipe :: "State \<Rightarrow> Pipe option" where
  "tick_collidedPipe s =
     find (\<lambda>pipe. checkBirdPipeCollision (tick_updatedBird s) pipe) (tick_scoredPipes s)"

definition tick_boundaryCollision :: "State \<Rightarrow> bool" where
  "tick_boundaryCollision s = checkBoundaryCollision (tick_updatedBird s)"

definition tick_hasPhysicalCollision :: "State \<Rightarrow> bool" where
  "tick_hasPhysicalCollision s = (tick_collidedPipe s \<noteq> None \<or> tick_boundaryCollision s)"

definition tick_hasDamageCollision :: "State \<Rightarrow> bool" where
  "tick_hasDamageCollision s =
     (tick_hasPhysicalCollision s \<and>
      (tick_newTime s - lastCollisionTime s \<ge> COLLISION_COOLDOWN_MS \<or>
       map_option pipe_id (tick_collidedPipe s) \<noteq> Some (lastCollisionPipeId s)))"

definition gameplay :: "State \<Rightarrow> bool" where
  "gameplay s = (gameStarted s \<and> \<not> gameEnd s \<and> \<not> isPaused s \<and> \<not> countdown s > 0)"

text \<open>
  An action is \<open>quiet\<close> in a state when it registers no damage there and does not
  start a new run: every tick without a damage collision, every \<open>Flap\<close> while the game
  has not ended (a \<open>Flap\<close> after the end restarts), every \<open>Pause\<close> and \<open>SpawnPipe\<close>,
  and no \<open>Restart\<close>.
\<close>

fun quiet :: "State \<Rightarrow> Action \<Rightarrow> bool" where
  "quiet s Tick = (\<not> (gameplay s \<and> tick_hasDamageCollision s))"
| "quiet s Flap = (\<not> gameEnd s)"
| "quiet s Pause = True"
| "quiet s Restart = False"
| "quiet s (SpawnPipe pipeData pipeId) = True"

fun quiet_run :: "State \<Rightarrow> Action list \<Rightarrow> bool" where
  "quiet_run s [] = True"
| "quiet_run s (a # as) = (quiet s a \<and> quiet_run (reduceState s a) as)"

subsection \<open>Concrete states\<close>

text \<open>
  The states of the test suite (an ended run with one recorded position, a run at
  time 10000, a history of one run with three positions, a bird that collides with a
  pipe) and a few more that exercise the cooldown, the power-up spawn and the score.
\<close>

definition endedRun :: State where
  "endedRun = initialState\<lparr>gameEnd := True, score := 10,
                            currentRun := [\<lparr>vec_x = 100, vec_y = 200\<rparr>]\<rparr>"

definition runningAt10000 :: State where
  "runningAt10000 = initialState\<lparr>gameStarted := True, time := 10000\<rparr>"

definition mockHistory :: "GameHistory list" where
  "mockHistory =
     [\<lparr>birdPositions = [\<lparr>vec_x = 10, vec_y = 10\<rparr>, \<lparr>vec_x = 11, vec_y = 12\<rparr>,
                         \<lparr>vec_x = 12, vec_y = 15\<rparr>],
       timestamp = 12345\<rparr>]"

definition startedState :: State where
  "startedState = initialState\<lparr>gameStarted := True\<rparr>"

definition birdAtTop :: Bird where
  "birdAtTop = (createBird 180 5)\<lparr>vel := \<lparr>vec_x = 0, vec_y = - 10\<rparr>\<rparr>"

definition justHitCeiling :: State where
  "justHitCeiling =
     initialState\<lparr>gameStarted := True, bird := birdAtTop, time := 1000,
                   lastCollisionTime := 1000, lastCollisionPipeId := - 1,
                   pipeSpawnQueue := [\<lparr>pd_gapY = 0.5, pd_gapHeight = 0.3, spawnTime = 60000\<rparr>]\<rparr>"

definition collidingPipe :: Pipe where
  "collidingPipe = createPipe 1 180 0.1 0.15"

definition collisionState :: State where
  "collisionState = initialState\<lparr>gameStarted := True, pipes := [collidingPipe], lives := 2\<rparr>"

definition afterFirstHit :: State where
  "afterFirstHit = Tick_apply collisionState"

definition gameOverState :: State where
  "gameOverState = collisionState\<lparr>lives := 1\<rparr>"

definition nextPipeState :: State where
  "nextPipeState =
     afterFirstHit\<lparr>pipes := [\<lparr>pipe_id = 1, pipe_x = 100, gapY = 40, gapHeight = 60,
                                width = 50, passed = False\<rparr>,
                               \<lparr>pipe_id = 2, pipe_x = 180, gapY = 40, gapHeight = 60,
                                width = 50, passed = False\<rparr>]\<rparr>"

definition shrinkSpawnState :: State where
  "shrinkSpawnState =
     initialState\<lparr>gameStarted := True, time := 10000, gameTime := 10000,
                   pipeSpawnQueue := [\<lparr>pd_gapY = 0.5, pd_gapHeight = 0.3, spawnTime = 60000\<rparr>]\<rparr>"

definition scoringState :: State where
  "scoringState =
     initialState\<lparr>gameStarted := True,
        pipes := [(createPipe 1 100 0.5 0.3)\<lparr>passed := True\<rparr>,
                  createPipe 2 125 0.5 0.3,
                  createPipe 3 400 0.5 0.3]\<rparr>"

definition stillInPipe :: State where
  "stillInPipe = run afterFirstHit [Tick, Flap]"

text \<open>
  A run of the whole program that wedges the bird between a pipe and the floor.  The
  schedule has one pipe with its gap at the bottom of the canvas (from 350 to 400),
  due at time 0; \<open>wedgeStart\<close> is the state the action stream starts from.  The
  first \<open>Flap\<close> starts the game and the pipe is spawned at once, with id 0.  Four more
  flaps keep the bird in the air for the 137 ticks that the pipe needs to reach it
  (\<open>approach\<close>).  In the next tick the bird is above the gap inside the pipe
  (\<open>afterPipeHit\<close>).  It is bounced downwards, falls through the gap for six ticks and
  hits the floor in the seventh; a \<open>Flap\<close> and seven ticks later it is at the upper
  edge of the gap again (\<open>wedgeTail\<close>, ending in \<open>beforeSecondHit\<close>).  \<open>inFlight\<close> is
  the state of this run with the bird at a given height and velocity, the pipe at a
  given place and the clock at a given time, without the recorded trace.
\<close>

definition wedgeSchedule :: "PipeData list" where
  "wedgeSchedule = [\<lparr>pd_gapY = 15 / 16, pd_gapHeight = 1 / 8, spawnTime = 0\<rparr>]"

definition wedgeStart :: State where
  "wedgeStart = initialState\<lparr>pipeSpawnQueue := wedgeSchedule,
                              originalPipeSpawnQueue := wedgeSchedule\<rparr>"

definition inFlight :: "real \<Rightarrow> real \<Rightarrow> real \<Rightarrow> real \<Rightarrow> State" where
  "inFlight y v px t =
     wedgeStart
       \<lparr>bird := \<lparr>pos = \<lparr>vec_x = 180, vec_y = y\<rparr>, vel = \<lparr>vec_x = 0, vec_y = v\<rparr>, radius = 7\<rparr>,
        pipes := [\<lparr>pipe_id = 0, pipe_x = px, gapY = 375, gapHeight = 50, width = 50,
                   passed = False\<rparr>],
        gameStarted := True, time := t, gameTime := t, pipeSpawnIndex := 1\<rparr>"

definition approach1 :: "Action list" where
  "approach1 = [Flap, SpawnPipe (hd wedgeSchedule) 0] @ replicate 41 Tick"

definition approach2 :: "Action list" where
  "approach2 = [Flap] @ replicate 25 Tick"

definition approach3 :: "Action list" where
  "approach3 = [Flap] @ replicate 33 Tick"

definition approach4 :: "Action list" where
  "approach4 = [Flap] @ replicate 10 Tick @ [Flap] @ replicate 28 Tick"

definition approach :: "Action list" where
  "approach = approach1 @ approach2 @ approach3 @ approach4"

definition wedgeTail :: "Action list" where
  "wedgeTail = replicate 7 Tick @ [Flap] @ replicate 7 Tick"

definition beforeFirstHit :: State where
  "beforeFirstHit = run wedgeStart approach"

definition afterPipeHit :: State where
  "afterPipeHit = Tick_apply beforeFirstHit"

definition beforeSecondHit :: State where
  "beforeSecondHit = run afterPipeHit wedgeTail"

section \<open>Properties\<close>

subsection \<open>Unfolding the model\<close>

lemmas constants_defs =
  CANVAS_WIDTH_def CANVAS_HEIGHT_def Birb_WIDTH_def Birb_HEIGHT_def Birb_INITIAL_X_def
  Birb_INITIAL_Y_def PIPE_WIDTH_def PIPE_SPEED_def GRAVITY_def FLAP_STRENGTH_def
  BOUNCE_VELOCITY_MIN_def BOUNCE_VELOCITY_MAX_def COLLISION_COOLDOWN_MS_def
  TICK_RATE_MS_def INITIAL_LIVES_def OFFSCREEN_THRESHOLD_def COUNTDOWN_DURATION_MS_def
  POWERUP_SIZE_def POWERUP_SPEED_def SHRINK_DURATION_def SHRINK_SCALE_def
  SLOW_DOWN_DURATION_def SLOW_DOWN_MIN_MULTIPLIER_def

lemmas tick_defs = tick_newTime_def tick_speed_def tick_updatedBird_def tick_cleanedPipes_def
  tick_scoredPipes_def tick_collidedPipe_def tick_boundaryCollision_def
  tick_hasPhysicalCollision_def tick_hasDamageCollision_def

lemmas model_defs =
  Tick_apply_def Let_def initialState_def createBird_def createPipe_def createPowerUp_def
  updateBirdPosition_def getCurrentBirdRadius_def getCurrentSpeedMultiplier_def clamp_def
  movePipes_def removeOffscreenPipes_def updateScore_def updatePowerUps_def
  checkPowerUpCollision_def checkBirdPipeCollision_def checkBoundaryCollision_def
  shouldSpawnPowerUp_def spawnPowerUpIfNeeded_def calculateBounce_def bounceBird_def
  randomBetween_def hash_def to_double_def round_half_even_def bit_length.simps
  scale01_def js_rem_def RNG_m_def RNG_a_def RNG_c_def
  enumerate_eq_zip constants_defs

subsection \<open>One tick, field by field\<close>

lemma Tick_idle:
  "gameEnd s \<or> \<not> gameStarted s \<or> isPaused s \<Longrightarrow> Tick_apply s = s"
  by (simp add: Tick_apply_def)

lemma Tick_countdown:
  "gameStarted s \<Longrightarrow> \<not> gameEnd s \<Longrightarrow> \<not> isPaused s \<Longrightarrow> countdown s > 0 \<Longrightarrow>
   Tick_apply s = s\<lparr>time := tick_newTime s,
        countdown := max 0 (3 - real_of_int \<lfloor>(tick_newTime s - countdownTime s) / COUNTDOWN_DURATION_MS\<rfloor>)\<rparr>"
  by (simp add: Tick_apply_def Let_def tick_defs)

lemma Tick_lives:
  "gameplay s \<Longrightarrow> lives (Tick_apply s) = (if tick_hasDamageCollision s then lives s - 1 else lives s)"
  by (simp add: gameplay_def Tick_apply_def Let_def tick_defs)

lemma Tick_lives_not_gameplay: "\<not> gameplay s \<Longrightarrow> lives (Tick_apply s) = lives s"
proof (cases "gameEnd s \<or> \<not> gameStarted s \<or> isPaused s")
  case True
  then show ?thesis by (simp add: Tick_idle)
next
  case False
  assume "\<not> gameplay s"
  with False have c: "countdown s > 0" by (simp add: gameplay_def)
  show ?thesis using False c by (simp add: Tick_countdown)
qed

lemma Tick_gameEnd:
  "gameplay s \<Longrightarrow> gameEnd (Tick_apply s) =
     ((pipeSpawnIndex s \<ge> real (length (pipeSpawnQueue s)) \<and> tick_scoredPipes s = []) \<or>
      (tick_hasPhysicalCollision s \<and> lives (Tick_apply s) \<le> 0))"
  by (simp add: gameplay_def Tick_apply_def Let_def tick_defs)

lemma Tick_gameWon:
  "gameplay s \<Longrightarrow> gameWon (Tick_apply s) =
     ((pipeSpawnIndex s \<ge> real (length (pipeSpawnQueue s)) \<and> tick_scoredPipes s = []) \<and>
      (tick_hasPhysicalCollision s \<longrightarrow> lives (Tick_apply s) > 0))"
  by (cases "tick_hasPhysicalCollision s"; cases "tick_hasDamageCollision s")
     (simp_all add: gameplay_def Tick_apply_def Let_def tick_defs)

lemma calculateBounce_seed: "bounce_nextSeed (calculateBounce b ps bc seed) = hash seed"
  by (simp add: calculateBounce_def randomBetween_def Let_def split: option.splits)

lemma shouldSpawnPowerUp_seed: "nextSeed (shouldSpawnPowerUp s seed) = seed"
  by (simp add: shouldSpawnPowerUp_def Let_def)

lemma Tick_rngSeed:
  "gameplay s \<Longrightarrow> rngSeed (Tick_apply s) =
     (if tick_hasPhysicalCollision s then hash (rngSeed s) else rngSeed s)"
  by (simp add: gameplay_def Tick_apply_def Let_def tick_defs calculateBounce_seed shouldSpawnPowerUp_seed)

lemma Tick_score:
  "gameplay s \<Longrightarrow> score (Tick_apply s) =
      sr_score (updateScore (tick_updatedBird s) (tick_cleanedPipes s) (score s))"
  by (simp add: gameplay_def Tick_apply_def Let_def tick_defs)

lemma Tick_pipes:
  "gameplay s \<Longrightarrow> pipes (Tick_apply s) = tick_scoredPipes s"
  by (simp add: gameplay_def Tick_apply_def Let_def tick_defs)

lemma Tick_score_not_gameplay: "\<not> gameplay s \<Longrightarrow> score (Tick_apply s) = score s \<and> pipes (Tick_apply s) = pipes s"
proof (cases "gameEnd s \<or> \<not> gameStarted s \<or> isPaused s")
  case True
  then show ?thesis by (simp add: Tick_idle)
next
  case False
  assume "\<not> gameplay s"
  with False have c: "countdown s > 0" by (simp add: gameplay_def)
  show ?thesis using False c by (simp add: Tick_countdown)
qed

lemma Tick_gameTime:
  "gameplay s \<Longrightarrow> gameTime (Tick_apply s) = gameTime s + TICK_RATE_MS"
  by (simp add: gameplay_def Tick_apply_def Let_def tick_defs)

lemma Tick_bird_pos:
  "gameplay s \<Longrightarrow> pos (bird (Tick_apply s)) = pos (tick_updatedBird s)"
  by (simp add: gameplay_def Tick_apply_def Let_def tick_defs bounceBird_def)

lemma Tick_lastCollision:
  "gameplay s \<Longrightarrow> tick_hasDamageCollision s \<Longrightarrow>
     lastCollisionTime (Tick_apply s) = tick_newTime s \<and>
     lastCollisionPipeId (Tick_apply s) =
       (case tick_collidedPipe s of Some p \<Rightarrow> pipe_id p | None \<Rightarrow> - 1)"
  by (simp add: gameplay_def Tick_apply_def Let_def tick_defs)

lemma updateScore_pipes_Nil [simp]: "sr_pipes (updateScore b [] c) = []"
  by (simp add: updateScore_def)

lemma no_pipes_scored: "pipes s = [] \<Longrightarrow> tick_scoredPipes s = []"
  by (simp add: tick_scoredPipes_def tick_cleanedPipes_def movePipes_def removeOffscreenPipes_def)

lemma Tick_lastCollision_quiet:
  assumes "gameplay s" and "\<not> tick_hasDamageCollision s"
  shows "lastCollisionTime (Tick_apply s) = lastCollisionTime s \<and>
         lastCollisionPipeId (Tick_apply s) = lastCollisionPipeId s"
  using assms
  by (cases "tick_collidedPipe s"; cases "tick_boundaryCollision s")
     (simp_all add: gameplay_def Tick_apply_def Let_def tick_defs)

lemma Tick_lastCollision_not_gameplay:
  "\<not> gameplay s \<Longrightarrow>
     lastCollisionTime (Tick_apply s) = lastCollisionTime s \<and>
     lastCollisionPipeId (Tick_apply s) = lastCollisionPipeId s"
proof (cases "gameEnd s \<or> \<not> gameStarted s \<or> isPaused s")
  case True
  then show ?thesis by (simp add: Tick_idle)
next
  case False
  assume "\<not> gameplay s"
  with False have c: "countdown s > 0" by (simp add: gameplay_def)
  show ?thesis using False c by (simp add: Tick_countdown)
qed

subsection \<open>Runs of actions\<close>

lemma run_append: "run s (xs @ ys) = run (run s xs) ys"
  by (induction xs arbitrary: s) simp_all

lemma quiet_keeps:
  "quiet s a \<Longrightarrow>
     lastCollisionTime (reduceState s a) = lastCollisionTime s \<and>
     lastCollisionPipeId (reduceState s a) = lastCollisionPipeId s"
proof (cases a)
  case Tick
  assume q: "quiet s a"
  show ?thesis
  proof (cases "gameplay s")
    case True
    with q Tick have "\<not> tick_hasDamageCollision s" by simp
    then show ?thesis using Tick_lastCollision_quiet [OF True] Tick by simp
  next
    case False
    then show ?thesis using Tick_lastCollision_not_gameplay [OF False] Tick by simp
  qed
next
  case Flap
  assume "quiet s a"
  with Flap show ?thesis by (simp add: Flap_apply_def)
next
  case Pause
  then show ?thesis by (simp add: Pause_apply_def)
next
  case Restart
  assume "quiet s a"
  with Restart show ?thesis by simp
next
  case (SpawnPipe pipeData pipeId)
  then show ?thesis by (simp add: SpawnPipe_apply_def Let_def)
qed

lemma quiet_run_keeps:
  "quiet_run s acts \<Longrightarrow>
     lastCollisionTime (run s acts) = lastCollisionTime s \<and>
     lastCollisionPipeId (run s acts) = lastCollisionPipeId s"
proof (induction acts arbitrary: s)
  case Nil
  then show ?case by simp
next
  case (Cons a acts)
  then have "quiet s a" and "quiet_run (reduceState s a) acts" by simp_all
  then show ?case using Cons.IH [of "reduceState s a"] quiet_keeps [of s a] by simp
qed

subsection \<open>The tick after a first hit\<close>

text \<open>
  \<open>afterFirstHit\<close> is the state after one tick of \<open>collisionState\<close>: the bird has
  hit pipe 1, lost one of its two lives and bounced upwards; the hit is recorded at
  time 16 against pipe 1.
\<close>

lemma hash_initial: "hash 123456789 = 231794736"
  by (simp add: hash_def to_double_def round_half_even_def bit_length.simps js_rem_def
        RNG_m_def RNG_a_def RNG_c_def Let_def)

lemma afterFirstHit_eq:
  "afterFirstHit =
     \<lparr>bird = \<lparr>pos = \<lparr>vec_x = 180, vec_y = 401 / 2\<rparr>,
               vel = \<lparr>vec_x = 0, vec_y = - (9285318796 / 2147483647)\<rparr>,
               radius = 7\<rparr>,
      pipes = [\<lparr>pipe_id = 1, pipe_x = 177, gapY = 40, gapHeight = 60, width = 50,
                passed = False\<rparr>],
      powerUps = [], score = 0, lives = 1, gameEnd = False,
      gameWon = False, gameStarted = True, isPaused = False, countdown = 0,
      countdownTime = 0, time = 16, gameTime = 16, pipeSpawnQueue = [],
      originalPipeSpawnQueue = [], gameHistory = [],
      currentRun = [\<lparr>vec_x = 180, vec_y = 401 / 2\<rparr>], ghostBirds = [],
      gameCount = 0, rngSeed = 231794736, shrinkActive = False,
      shrinkEndTime = 0, slowDownActive = False, slowDownEndTime = 0,
      slowDownMultiplier = 1, powerUpsSpawned = 0, powerUpsCollected = 0,
      pipeSpawnIndex = 0, lastCollisionTime = 16,
      lastCollisionPipeId = 1\<rparr>"
  by (simp add: afterFirstHit_def collisionState_def collidingPipe_def model_defs)

lemma afterFirstHit_collidedPipe:
  "tick_collidedPipe afterFirstHit =
     Some \<lparr>pipe_id = 1, pipe_x = 174, gapY = 40, gapHeight = 60, width = 50, passed = False\<rparr>"
  by (simp add: afterFirstHit_eq tick_defs model_defs)

lemma afterFirstHit_scored:
  "tick_scoredPipes afterFirstHit =
     [\<lparr>pipe_id = 1, pipe_x = 174, gapY = 40, gapHeight = 60, width = 50, passed = False\<rparr>]"
  by (simp add: afterFirstHit_eq tick_defs model_defs)

lemma afterFirstHit_collides:
  "checkBirdPipeCollision (tick_updatedBird afterFirstHit)
     \<lparr>pipe_id = 1, pipe_x = 174, gapY = 40, gapHeight = 60, width = 50, passed = False\<rparr>"
  by (simp add: afterFirstHit_eq tick_defs model_defs)

lemma afterFirstHit_lives: "lives (Tick_apply afterFirstHit) = 1"
  by (simp add: afterFirstHit_eq model_defs)

lemma afterFirstHit_gameEnd: "\<not> gameEnd (Tick_apply afterFirstHit)"
  by (simp add: afterFirstHit_eq model_defs)

lemma nextPipeState_collidedPipe:
  "tick_collidedPipe nextPipeState =
     Some \<lparr>pipe_id = 2, pipe_x = 177, gapY = 40, gapHeight = 60, width = 50, passed = False\<rparr>"
  by (simp add: nextPipeState_def afterFirstHit_eq tick_defs model_defs)

lemma nextPipeState_lives: "lives (Tick_apply nextPipeState) = 0"
  by (simp add: nextPipeState_def afterFirstHit_eq model_defs)

subsection \<open>Power-up spawn and the seed\<close>

lemma shrinkSpawnState_tick:
  "Tick_apply shrinkSpawnState =
     shrinkSpawnState
       \<lparr>bird := \<lparr>pos = \<lparr>vec_x = 180, vec_y = 401 / 2\<rparr>,
                  vel = \<lparr>vec_x = 0, vec_y = 1 / 2\<rparr>, radius = 7\<rparr>,
        powerUps := [\<lparr>pu_id = 10016, pu_type = Shrink,
                      pu_pos = \<lparr>vec_x = 600, vec_y = 310356030780 / 2147483647\<rparr>,
                      collected = False\<rparr>],
        time := 10016, gameTime := 10016,
        currentRun := [\<lparr>vec_x = 180, vec_y = 401 / 2\<rparr>],
        powerUpsSpawned := 1\<rparr>"
  by (simp add: shrinkSpawnState_def model_defs)

text \<open>
  C1.  The claim is that every tick that spawns a power-up advances \<open>rngSeed\<close> to its
  successor under the generator, as a call of \<open>randomBetween\<close> does.  The code does
  not do this: \<open>shouldSpawnPowerUp\<close> returns the seed it was given as \<open>nextSeed\<close>,
  and \<open>spawnPowerUpIfNeeded\<close> drops the seed that \<open>randomBetween\<close> returns.  In
  \<open>shrinkSpawnState\<close> (running, game time 10000, no power-up outstanding, no collision)
  the tick spawns a shrink power-up and leaves \<open>rngSeed\<close> as it was, although the
  \<open>randomBetween\<close> call of the spawn returned another seed.
\<close>

theorem spawn_keeps_seed:
  "gameStarted shrinkSpawnState \<and> \<not> gameEnd shrinkSpawnState \<and> \<not> isPaused shrinkSpawnState \<and>
   powerUps shrinkSpawnState = [] \<and>
   map pu_type (powerUps (Tick_apply shrinkSpawnState)) = [Shrink] \<and>
   powerUpsSpawned (Tick_apply shrinkSpawnState) = powerUpsSpawned shrinkSpawnState + 1 \<and>
   rngSeed (Tick_apply shrinkSpawnState) = rngSeed shrinkSpawnState \<and>
   rand_seed (randomBetween (rngSeed shrinkSpawnState) 132 248) \<noteq> rngSeed shrinkSpawnState"
  by (simp add: shrinkSpawnState_tick)
     (simp add: shrinkSpawnState_def initialState_def randomBetween_def Let_def hash_initial)

text \<open>
  The same tick with the numbers written out: a shrink power-up is there and the seed
  is still 123456789.
\<close>

theorem spawn_keeps_seed_witness:
  "map pu_type (powerUps (Tick_apply shrinkSpawnState)) = [Shrink] \<and>
   rngSeed (Tick_apply shrinkSpawnState) = 123456789"
proof -
  have "rngSeed shrinkSpawnState = 123456789"
    by (simp add: shrinkSpawnState_def initialState_def)
  then show ?thesis
    using spawn_keeps_seed by simp
qed

text \<open>
  In general the seed changes in a simulation tick exactly when the bird bounces, as
  \<open>Tick_rngSeed\<close> shows, whether or not a power-up is spawned.
\<close>

subsection \<open>The damage cooldown\<close>

lemma same_pipe_in_window:
  assumes "\<exists>p \<in> set (tick_scoredPipes s). checkBirdPipeCollision (tick_updatedBird s) p"
    and "\<forall>p \<in> set (tick_scoredPipes s).
           checkBirdPipeCollision (tick_updatedBird s) p \<longrightarrow> pipe_id p = lastCollisionPipeId s"
    and "time s + TICK_RATE_MS < lastCollisionTime s + COLLISION_COOLDOWN_MS"
  shows "lives (Tick_apply s) = lives s"
proof (cases "gameplay s")
  case False
  then show ?thesis by (rule Tick_lives_not_gameplay)
next
  case True
  from assms(1) obtain p where p: "tick_collidedPipe s = Some p"
    unfolding tick_collidedPipe_def
    by (cases "find (\<lambda>pipe. checkBirdPipeCollision (tick_updatedBird s) pipe)
                 (tick_scoredPipes s)")
       (auto simp: find_None_iff)
  then have "p \<in> set (tick_scoredPipes s) \<and> checkBirdPipeCollision (tick_updatedBird s) p"
    unfolding tick_collidedPipe_def by (auto simp: find_Some_iff)
  with assms(2) have "pipe_id p = lastCollisionPipeId s" by blast
  with assms(3) p have "\<not> tick_hasDamageCollision s"
    by (simp add: tick_hasDamageCollision_def tick_newTime_def)
  then show ?thesis using Tick_lives [OF True] by simp
qed

lemma collisionState_collidedPipe:
  "tick_collidedPipe collisionState =
     Some \<lparr>pipe_id = 1, pipe_x = 177, gapY = 40, gapHeight = 60, width = 50, passed = False\<rparr>"
  by (simp add: collisionState_def collidingPipe_def tick_defs model_defs)

lemma collisionState_damage: "tick_hasDamageCollision collisionState"
  by (simp add: collisionState_def collidingPipe_def tick_defs model_defs)

lemma afterFirstHit_no_damage: "\<not> tick_hasDamageCollision afterFirstHit"
  by (simp add: afterFirstHit_eq tick_defs model_defs)

text \<open>
  C2.  Cooldown invariant, as the code keeps it.  Let a tick register damage against
  pipe \<open>P\<close>: the tick runs the simulation, has a damage collision and \<open>P\<close> is the pipe
  it collides with.  The tick takes a life and records its own time \<open>T\<close> and the id of
  \<open>P\<close> in \<open>lastCollisionTime\<close> and \<open>lastCollisionPipeId\<close>.  After any number of
  quiet actions (no other damage collision, against a boundary or another pipe, and no
  restart), a tick in which the bird collides with some pipe, every pipe it collides
  with has the id of \<open>P\<close>, and whose time is still before
  \<open>T + COLLISION_COOLDOWN_MS\<close>, does not change \<open>lives\<close>.  And there is a running state
  inside the window of its last damage in which the bird collides with a pipe of
  another id and the tick takes a life.
\<close>

theorem cooldown_until_other_damage:
  "(gameStarted s0 \<and> \<not> gameEnd s0 \<and> \<not> isPaused s0 \<and> \<not> countdown s0 > 0 \<and>
    tick_hasDamageCollision s0 \<and> tick_collidedPipe s0 = Some P \<and>
    quiet_run (Tick_apply s0) acts \<and> s = run (Tick_apply s0) acts \<and>
    (\<exists>p \<in> set (tick_scoredPipes s). checkBirdPipeCollision (tick_updatedBird s) p) \<and>
    (\<forall>p \<in> set (tick_scoredPipes s).
        checkBirdPipeCollision (tick_updatedBird s) p \<longrightarrow> pipe_id p = pipe_id P) \<and>
    time s + TICK_RATE_MS < time s0 + TICK_RATE_MS + COLLISION_COOLDOWN_MS
    \<longrightarrow> lives (Tick_apply s0) = lives s0 - 1 \<and>
        lastCollisionTime (Tick_apply s0) = time s0 + TICK_RATE_MS \<and>
        lastCollisionPipeId (Tick_apply s0) = pipe_id P \<and>
        lives (Tick_apply s) = lives s) \<and>
   (\<exists>s'. gameStarted s' \<and> \<not> gameEnd s' \<and> \<not> isPaused s' \<and> \<not> countdown s' > 0 \<and>
         time s' + TICK_RATE_MS < lastCollisionTime s' + COLLISION_COOLDOWN_MS \<and>
         (\<exists>p. tick_collidedPipe s' = Some p \<and> pipe_id p \<noteq> lastCollisionPipeId s') \<and>
         lives (Tick_apply s') = lives s' - 1)"
proof (rule conjI, rule impI)
  assume a: "gameStarted s0 \<and> \<not> gameEnd s0 \<and> \<not> isPaused s0 \<and> \<not> countdown s0 > 0 \<and>
    tick_hasDamageCollision s0 \<and> tick_collidedPipe s0 = Some P \<and>
    quiet_run (Tick_apply s0) acts \<and> s = run (Tick_apply s0) acts \<and>
    (\<exists>p \<in> set (tick_scoredPipes s). checkBirdPipeCollision (tick_updatedBird s) p) \<and>
    (\<forall>p \<in> set (tick_scoredPipes s).
        checkBirdPipeCollision (tick_updatedBird s) p \<longrightarrow> pipe_id p = pipe_id P) \<and>
    time s + TICK_RATE_MS < time s0 + TICK_RATE_MS + COLLISION_COOLDOWN_MS"
  then have g: "gameplay s0" by (simp add: gameplay_def)
  from a have d: "tick_hasDamageCollision s0" and c: "tick_collidedPipe s0 = Some P" by simp_all
  have l0: "lives (Tick_apply s0) = lives s0 - 1"
    using Tick_lives [OF g] d by simp
  have r: "lastCollisionTime (Tick_apply s0) = time s0 + TICK_RATE_MS"
    "lastCollisionPipeId (Tick_apply s0) = pipe_id P"
    using Tick_lastCollision [OF g d] c by (simp_all add: tick_newTime_def)
  from a have q: "quiet_run (Tick_apply s0) acts" and e: "s = run (Tick_apply s0) acts"
    by simp_all
  have k: "lastCollisionTime s = time s0 + TICK_RATE_MS" "lastCollisionPipeId s = pipe_id P"
    using quiet_run_keeps [OF q] r unfolding e by simp_all
  from a have h1: "\<exists>p \<in> set (tick_scoredPipes s). checkBirdPipeCollision (tick_updatedBird s) p"
    and h2: "\<forall>p \<in> set (tick_scoredPipes s).
        checkBirdPipeCollision (tick_updatedBird s) p \<longrightarrow> pipe_id p = pipe_id P"
    and h3: "time s + TICK_RATE_MS < time s0 + TICK_RATE_MS + COLLISION_COOLDOWN_MS"
    by blast+
  have "lives (Tick_apply s) = lives s"
  proof (rule same_pipe_in_window)
    show "\<exists>p \<in> set (tick_scoredPipes s). checkBirdPipeCollision (tick_updatedBird s) p"
      by (rule h1)
    show "\<forall>p \<in> set (tick_scoredPipes s).
           checkBirdPipeCollision (tick_updatedBird s) p \<longrightarrow> pipe_id p = lastCollisionPipeId s"
      using h2 by (simp only: k)
    show "time s + TICK_RATE_MS < lastCollisionTime s + COLLISION_COOLDOWN_MS"
      using h3 by (simp only: k)
  qed
  with l0 r show "lives (Tick_apply s0) = lives s0 - 1 \<and>
        lastCollisionTime (Tick_apply s0) = time s0 + TICK_RATE_MS \<and>
        lastCollisionPipeId (Tick_apply s0) = pipe_id P \<and>
        lives (Tick_apply s) = lives s"
    by simp
next
  show "\<exists>s'. gameStarted s' \<and> \<not> gameEnd s' \<and> \<not> isPaused s' \<and> \<not> countdown s' > 0 \<and>
         time s' + TICK_RATE_MS < lastCollisionTime s' + COLLISION_COOLDOWN_MS \<and>
         (\<exists>p. tick_collidedPipe s' = Some p \<and> pipe_id p \<noteq> lastCollisionPipeId s') \<and>
         lives (Tick_apply s') = lives s' - 1"
    by (rule exI [of _ nextPipeState])
       (simp add: nextPipeState_collidedPipe nextPipeState_lives,
        simp add: nextPipeState_def afterFirstHit_eq constants_defs)
qed

lemma replicate_numeral: "replicate (numeral k) x = x # replicate (pred_numeral k) x"
  by (simp add: numeral_eq_Suc)

lemmas run_defs = wedgeStart_def wedgeSchedule_def inFlight_def model_defs Flap_apply_def
     SpawnPipe_apply_def flapBird_def replicate_numeral

lemma stillInPipe_eq:
  "stillInPipe =
     \<lparr>bird = \<lparr>pos = \<lparr>vec_x = 180, vec_y = 422358894251 / 2147483647\<rparr>,
               vel = \<lparr>vec_x = 0, vec_y = - 7\<rparr>, radius = 7\<rparr>,
      pipes = [\<lparr>pipe_id = 1, pipe_x = 174, gapY = 40, gapHeight = 60, width = 50,
                passed = False\<rparr>],
      powerUps = [], score = 0, lives = 1, gameEnd = False,
      gameWon = False, gameStarted = True, isPaused = False, countdown = 0,
      countdownTime = 0, time = 32, gameTime = 32, pipeSpawnQueue = [],
      originalPipeSpawnQueue = [], gameHistory = [],
      currentRun = [\<lparr>vec_x = 180, vec_y = 401 / 2\<rparr>,
                    \<lparr>vec_x = 180, vec_y = 422358894251 / 2147483647\<rparr>],
      ghostBirds = [], gameCount = 0, rngSeed = 1305586880,
      shrinkActive = False, shrinkEndTime = 0, slowDownActive = False,
      slowDownEndTime = 0, slowDownMultiplier = 1, powerUpsSpawned = 0,
      powerUpsCollected = 0, pipeSpawnIndex = 0, lastCollisionTime = 16,
      lastCollisionPipeId = 1\<rparr>"
  by (simp add: stillInPipe_def afterFirstHit_eq run_defs)

lemma stillInPipe_scored:
  "tick_scoredPipes stillInPipe =
     [\<lparr>pipe_id = 1, pipe_x = 171, gapY = 40, gapHeight = 60, width = 50, passed = False\<rparr>]"
  by (simp add: stillInPipe_eq tick_defs model_defs)

lemma stillInPipe_collides:
  "checkBirdPipeCollision (tick_updatedBird stillInPipe)
     \<lparr>pipe_id = 1, pipe_x = 171, gapY = 40, gapHeight = 60, width = 50, passed = False\<rparr>"
  by (simp add: stillInPipe_eq tick_defs model_defs)

text \<open>
  Witness: the bird of \<open>collisionState\<close> hits pipe 1 at time 16.  The next tick only
  bounces it, then it flaps; both are quiet.  In the tick after that it is still inside
  pipe 1, at time 48, and keeps the one life it has left.
\<close>

theorem cooldown_until_other_damage_witness:
  "gameStarted collisionState \<and> \<not> gameEnd collisionState \<and> \<not> isPaused collisionState \<and>
   \<not> countdown collisionState > 0 \<and> tick_hasDamageCollision collisionState \<and>
   tick_collidedPipe collisionState =
     Some \<lparr>pipe_id = 1, pipe_x = 177, gapY = 40, gapHeight = 60, width = 50, passed = False\<rparr> \<and>
   quiet_run (Tick_apply collisionState) [Tick, Flap] \<and>
   stillInPipe = run (Tick_apply collisionState) [Tick, Flap] \<and>
   tick_scoredPipes stillInPipe =
     [\<lparr>pipe_id = 1, pipe_x = 171, gapY = 40, gapHeight = 60, width = 50, passed = False\<rparr>] \<and>
   checkBirdPipeCollision (tick_updatedBird stillInPipe)
     \<lparr>pipe_id = 1, pipe_x = 171, gapY = 40, gapHeight = 60, width = 50, passed = False\<rparr> \<and>
   time stillInPipe + TICK_RATE_MS < time collisionState + TICK_RATE_MS + COLLISION_COOLDOWN_MS \<and>
   lives collisionState = 2 \<and> lives (Tick_apply collisionState) = 1 \<and>
   lastCollisionTime (Tick_apply collisionState) = 16 \<and>
   lastCollisionPipeId (Tick_apply collisionState) = 1 \<and>
   lives stillInPipe = 1 \<and> lives (Tick_apply stillInPipe) = 1"
proof -
  have h0: "gameStarted collisionState \<and> \<not> gameEnd collisionState \<and>
     \<not> isPaused collisionState \<and> \<not> countdown collisionState > 0 \<and>
     lives collisionState = 2 \<and> time collisionState = 0"
    by (simp add: collisionState_def initialState_def)
  have q: "quiet_run (Tick_apply collisionState) [Tick, Flap]"
    using afterFirstHit_no_damage afterFirstHit_gameEnd
    by (simp add: afterFirstHit_def)
  have e: "stillInPipe = run (Tick_apply collisionState) [Tick, Flap]"
    by (simp only: stillInPipe_def afterFirstHit_def)
  have w: "time stillInPipe + TICK_RATE_MS <
           time collisionState + TICK_RATE_MS + COLLISION_COOLDOWN_MS"
    using h0 by (simp add: stillInPipe_eq constants_defs)
  have h: "gameStarted collisionState \<and> \<not> gameEnd collisionState \<and>
    \<not> isPaused collisionState \<and> \<not> countdown collisionState > 0 \<and>
    tick_hasDamageCollision collisionState \<and>
    tick_collidedPipe collisionState =
      Some \<lparr>pipe_id = 1, pipe_x = 177, gapY = 40, gapHeight = 60, width = 50,
             passed = False\<rparr> \<and>
    quiet_run (Tick_apply collisionState) [Tick, Flap] \<and>
    stillInPipe = run (Tick_apply collisionState) [Tick, Flap] \<and>
    (\<exists>p \<in> set (tick_scoredPipes stillInPipe).
        checkBirdPipeCollision (tick_updatedBird stillInPipe) p) \<and>
    (\<forall>p \<in> set (tick_scoredPipes stillInPipe).
        checkBirdPipeCollision (tick_updatedBird stillInPipe) p \<longrightarrow>
        pipe_id p =
        pipe_id \<lparr>pipe_id = 1, pipe_x = 177, gapY = 40, gapHeight = 60, width = 50,
                  passed = False\<rparr>) \<and>
    time stillInPipe + TICK_RATE_MS <
      time collisionState + TICK_RATE_MS + COLLISION_COOLDOWN_MS"
    using h0 collisionState_damage collisionState_collidedPipe q e w stillInPipe_collides
    by (simp add: stillInPipe_scored)
  have l: "lives stillInPipe = 1" by (simp add: stillInPipe_eq)
  from cooldown_until_other_damage
    [of collisionState
        "\<lparr>pipe_id = 1, pipe_x = 177, gapY = 40, gapHeight = 60, width = 50, passed = False\<rparr>"
        "[Tick, Flap]" stillInPipe]
  have "lives (Tick_apply collisionState) = lives collisionState - 1 \<and>
        lastCollisionTime (Tick_apply collisionState) = time collisionState + TICK_RATE_MS \<and>
        lastCollisionPipeId (Tick_apply collisionState) = 1 \<and>
        lives (Tick_apply stillInPipe) = lives stillInPipe"
    using h by simp
  then show ?thesis
    using h0 collisionState_damage collisionState_collidedPipe q e w stillInPipe_collides l
    by (simp add: stillInPipe_scored TICK_RATE_MS_def)
qed

text \<open>
  The run that wedges the bird, in four stretches of flight, the tick of the first hit
  and the tail.  The trace of positions is left out of the states that are compared.
\<close>

lemma restore_trace: "s\<lparr>currentRun := []\<rparr> = r \<Longrightarrow> s = r\<lparr>currentRun := currentRun s\<rparr>"
  by (drule sym) simp

lemma approach1_run:
  "(run wedgeStart approach1)\<lparr>currentRun := []\<rparr> = inFlight (687 / 2) (27 / 2) 477 656"
  by (simp add: approach1_def run_defs)

lemma approach2_run:
  "(run ((inFlight (687 / 2) (27 / 2) 477 656)\<lparr>currentRun := c\<rparr>) approach2)\<lparr>currentRun := []\<rparr> =
     inFlight 331 (11 / 2) 402 1056"
  by (simp add: approach2_def run_defs)

lemma approach3_run:
  "(run ((inFlight 331 (11 / 2) 402 1056)\<lparr>currentRun := c\<rparr>) approach3)\<lparr>currentRun := []\<rparr> =
     inFlight (761 / 2) (19 / 2) 303 1584"
  by (simp add: approach3_def run_defs)

lemma approach4_run:
  "(run ((inFlight (761 / 2) (19 / 2) 303 1584)\<lparr>currentRun := c\<rparr>) approach4)\<lparr>currentRun := []\<rparr> =
     inFlight 345 7 189 2192"
  by (simp add: approach4_def run_defs)

lemma beforeFirstHit_eq:
  "\<exists>c. beforeFirstHit = (inFlight 345 7 189 2192)\<lparr>currentRun := c\<rparr>"
proof -
  have "run wedgeStart approach1 =
        (inFlight (687 / 2) (27 / 2) 477 656)\<lparr>currentRun := currentRun (run wedgeStart approach1)\<rparr>"
    by (rule restore_trace [OF approach1_run])
  then obtain c1 where 1: "run wedgeStart approach1 =
        (inFlight (687 / 2) (27 / 2) 477 656)\<lparr>currentRun := c1\<rparr>" ..
  have "run (run wedgeStart approach1) approach2 =
        (inFlight 331 (11 / 2) 402 1056)\<lparr>currentRun := currentRun (run (run wedgeStart approach1) approach2)\<rparr>"
    unfolding 1 by (rule restore_trace [OF approach2_run])
  then obtain c2 where 2: "run (run wedgeStart approach1) approach2 =
        (inFlight 331 (11 / 2) 402 1056)\<lparr>currentRun := c2\<rparr>" ..
  have "run (run (run wedgeStart approach1) approach2) approach3 =
        (inFlight (761 / 2) (19 / 2) 303 1584)\<lparr>currentRun :=
           currentRun (run (run (run wedgeStart approach1) approach2) approach3)\<rparr>"
    unfolding 2 by (rule restore_trace [OF approach3_run])
  then obtain c3 where 3: "run (run (run wedgeStart approach1) approach2) approach3 =
        (inFlight (761 / 2) (19 / 2) 303 1584)\<lparr>currentRun := c3\<rparr>" ..
  have "(run (run (run (run wedgeStart approach1) approach2) approach3) approach4)\<lparr>currentRun := []\<rparr> =
        inFlight 345 7 189 2192"
    unfolding 3 by (rule approach4_run)
  then have "beforeFirstHit\<lparr>currentRun := []\<rparr> = inFlight 345 7 189 2192"
    by (simp add: beforeFirstHit_def approach_def run_append)
  then have "beforeFirstHit = (inFlight 345 7 189 2192)\<lparr>currentRun := currentRun beforeFirstHit\<rparr>"
    by (rule restore_trace)
  then show ?thesis ..
qed

lemma hit_tick:
  "(Tick_apply ((inFlight 345 7 189 2192)\<lparr>currentRun := c\<rparr>))\<lparr>currentRun := []\<rparr> =
     (inFlight (705 / 2) (9285318796 / 2147483647) 186 2208)
       \<lparr>lives := 2, rngSeed := 231794736, lastCollisionTime := 2208, lastCollisionPipeId := 0\<rparr>"
  by (simp add: run_defs)

lemma tail_run:
  "(run (Tick_apply ((inFlight 345 7 189 2192)\<lparr>currentRun := c\<rparr>)) wedgeTail)\<lparr>currentRun := []\<rparr> =
     (inFlight 358 (- (7 / 2)) 144 2432)
       \<lparr>lives := 1, rngSeed := 1305586880, lastCollisionTime := 2320,
        lastCollisionPipeId := - 1\<rparr>"
  by (simp add: wedgeTail_def run_defs)

lemma afterPipeHit_eq:
  "\<exists>c. afterPipeHit =
     (inFlight (705 / 2) (9285318796 / 2147483647) 186 2208)
       \<lparr>lives := 2, rngSeed := 231794736, lastCollisionTime := 2208, lastCollisionPipeId := 0,
        currentRun := c\<rparr>"
proof -
  obtain c0 where 0: "beforeFirstHit = (inFlight 345 7 189 2192)\<lparr>currentRun := c0\<rparr>"
    using beforeFirstHit_eq ..
  have "afterPipeHit\<lparr>currentRun := []\<rparr> =
     (inFlight (705 / 2) (9285318796 / 2147483647) 186 2208)
       \<lparr>lives := 2, rngSeed := 231794736, lastCollisionTime := 2208, lastCollisionPipeId := 0\<rparr>"
    unfolding afterPipeHit_def 0 by (rule hit_tick)
  then have "afterPipeHit =
     (inFlight (705 / 2) (9285318796 / 2147483647) 186 2208)
       \<lparr>lives := 2, rngSeed := 231794736, lastCollisionTime := 2208, lastCollisionPipeId := 0\<rparr>
       \<lparr>currentRun := currentRun afterPipeHit\<rparr>"
    by (rule restore_trace)
  then show ?thesis by (intro exI [of _ "currentRun afterPipeHit"]) simp
qed

lemma beforeSecondHit_eq:
  "\<exists>c. beforeSecondHit =
     (inFlight 358 (- (7 / 2)) 144 2432)
       \<lparr>lives := 1, rngSeed := 1305586880, lastCollisionTime := 2320,
        lastCollisionPipeId := - 1, currentRun := c\<rparr>"
proof -
  obtain c0 where 0: "beforeFirstHit = (inFlight 345 7 189 2192)\<lparr>currentRun := c0\<rparr>"
    using beforeFirstHit_eq ..
  have "beforeSecondHit\<lparr>currentRun := []\<rparr> =
     (inFlight 358 (- (7 / 2)) 144 2432)
       \<lparr>lives := 1, rngSeed := 1305586880, lastCollisionTime := 2320,
        lastCollisionPipeId := - 1\<rparr>"
    unfolding beforeSecondHit_def afterPipeHit_def 0 by (rule tail_run)
  then have "beforeSecondHit =
     (inFlight 358 (- (7 / 2)) 144 2432)
       \<lparr>lives := 1, rngSeed := 1305586880, lastCollisionTime := 2320,
        lastCollisionPipeId := - 1\<rparr>\<lparr>currentRun := currentRun beforeSecondHit\<rparr>"
    by (rule restore_trace)
  then show ?thesis by (intro exI [of _ "currentRun beforeSecondHit"]) simp
qed

lemma beforeFirstHit_tick:
  "gameStarted beforeFirstHit \<and> \<not> gameEnd beforeFirstHit \<and> \<not> isPaused beforeFirstHit \<and>
   \<not> countdown beforeFirstHit > 0 \<and> tick_hasDamageCollision beforeFirstHit \<and>
   map_option pipe_id (tick_collidedPipe beforeFirstHit) = Some 0"
proof -
  obtain c where e: "beforeFirstHit = (inFlight 345 7 189 2192)\<lparr>currentRun := c\<rparr>"
    using beforeFirstHit_eq ..
  show ?thesis unfolding e by (simp add: tick_defs run_defs)
qed

lemma afterPipeHit_registered:
  "lastCollisionTime afterPipeHit = 2208 \<and> lastCollisionPipeId afterPipeHit = 0"
proof -
  obtain c where e: "afterPipeHit =
     (inFlight (705 / 2) (9285318796 / 2147483647) 186 2208)
       \<lparr>lives := 2, rngSeed := 231794736, lastCollisionTime := 2208, lastCollisionPipeId := 0,
        currentRun := c\<rparr>"
    using afterPipeHit_eq ..
  show ?thesis unfolding e by simp
qed

lemma beforeSecondHit_tick:
  "gameStarted beforeSecondHit \<and> \<not> gameEnd beforeSecondHit \<and> \<not> isPaused beforeSecondHit \<and>
   \<not> countdown beforeSecondHit > 0 \<and>
   map pipe_id (filter (checkBirdPipeCollision (tick_updatedBird beforeSecondHit))
                  (tick_scoredPipes beforeSecondHit)) = [0] \<and>
   \<not> tick_boundaryCollision beforeSecondHit \<and>
   time beforeSecondHit = 2432 \<and> lives beforeSecondHit = 1 \<and>
   lastCollisionTime beforeSecondHit = 2320 \<and> lastCollisionPipeId beforeSecondHit = - 1 \<and>
   lives (Tick_apply beforeSecondHit) = 0"
proof -
  obtain c where e: "beforeSecondHit =
     (inFlight 358 (- (7 / 2)) 144 2432)
       \<lparr>lives := 1, rngSeed := 1305586880, lastCollisionTime := 2320,
        lastCollisionPipeId := - 1, currentRun := c\<rparr>"
    using beforeSecondHit_eq ..
  show ?thesis unfolding e by (simp add: tick_defs run_defs)
qed

text \<open>
  Without the condition on the actions in between the invariant fails, in a run of
  the program from its start: pipe 0 takes a life at time 2208; the floor takes one at
  time 2320, which overwrites the record of the last damage with the id \<open>-1\<close>; at
  time 2448, 240 ms after its first hit and with no other collision in that tick, pipe
  0 takes the last life.
\<close>

theorem cooldown_reset_counterexample:
  "gameStarted beforeFirstHit \<and> \<not> gameEnd beforeFirstHit \<and> \<not> isPaused beforeFirstHit \<and>
   \<not> countdown beforeFirstHit > 0 \<and> tick_hasDamageCollision beforeFirstHit \<and>
   map_option pipe_id (tick_collidedPipe beforeFirstHit) = Some 0 \<and>
   lastCollisionTime afterPipeHit = 2208 \<and> lastCollisionPipeId afterPipeHit = 0 \<and>
   gameStarted beforeSecondHit \<and> \<not> gameEnd beforeSecondHit \<and> \<not> isPaused beforeSecondHit \<and>
   \<not> countdown beforeSecondHit > 0 \<and>
   map pipe_id (filter (checkBirdPipeCollision (tick_updatedBird beforeSecondHit))
                  (tick_scoredPipes beforeSecondHit)) = [0] \<and>
   \<not> tick_boundaryCollision beforeSecondHit \<and>
   time beforeSecondHit + TICK_RATE_MS < 2208 + COLLISION_COOLDOWN_MS \<and>
   lastCollisionTime beforeSecondHit = 2320 \<and> lastCollisionPipeId beforeSecondHit = - 1 \<and>
   lives beforeSecondHit = 1 \<and> lives (Tick_apply beforeSecondHit) = 0"
  using beforeFirstHit_tick afterPipeHit_registered beforeSecondHit_tick
  by (simp add: constants_defs)

text \<open>
  C3.  Boundary collisions bypass the cooldown.  In a running state that is not paused
  and not counting down, if the bird after the physics step touches the top or bottom
  edge and collides with no pipe, the tick registers a damage collision: \<open>lives\<close>
  drops by one, \<open>lastCollisionTime\<close> becomes the time after the tick and
  \<open>lastCollisionPipeId\<close> becomes \<open>-1\<close>.  Nothing is assumed about the time or the
  pipe id of the previous damage: the id of the collided pipe is \<open>undefined\<close>, which
  differs from every stored number, \<open>-1\<close> included.
\<close>

theorem boundary_bypasses_cooldown:
  assumes "gameStarted s" and "\<not> gameEnd s" and "\<not> isPaused s" and "\<not> countdown s > 0"
    and "tick_boundaryCollision s" and "tick_collidedPipe s = None"
  shows "tick_hasDamageCollision s \<and>
         lives (Tick_apply s) = lives s - 1 \<and>
         lastCollisionTime (Tick_apply s) = time s + TICK_RATE_MS \<and>
         lastCollisionPipeId (Tick_apply s) = - 1"
proof -
  have g: "gameplay s" using assms by (simp add: gameplay_def)
  have d: "tick_hasDamageCollision s"
    using assms by (simp add: tick_hasDamageCollision_def tick_hasPhysicalCollision_def)
  show ?thesis
    using d Tick_lives [OF g] Tick_lastCollision [OF g d] assms(6)
    by (simp add: tick_newTime_def)
qed

lemma justHitCeiling_bird:
  "tick_updatedBird justHitCeiling =
     \<lparr>pos = \<lparr>vec_x = 180, vec_y = 7\<rparr>, vel = \<lparr>vec_x = 0, vec_y = - 9.5\<rparr>, radius = 7\<rparr>"
  by (simp add: tick_updatedBird_def justHitCeiling_def initialState_def birdAtTop_def
        createBird_def updateBirdPosition_def getCurrentBirdRadius_def clamp_def Let_def
        constants_defs)

text \<open>
  Witness: \<open>justHitCeiling\<close> has just taken boundary damage (recorded at its own time
  1000, pipe id \<open>-1\<close>); the bird is pressed against the ceiling again 16 ms later and
  loses another life.
\<close>

theorem boundary_bypasses_cooldown_witness:
  "gameStarted justHitCeiling \<and> \<not> gameEnd justHitCeiling \<and> \<not> isPaused justHitCeiling \<and>
   \<not> countdown justHitCeiling > 0 \<and>
   tick_boundaryCollision justHitCeiling \<and> tick_collidedPipe justHitCeiling = None \<and>
   time justHitCeiling + TICK_RATE_MS - lastCollisionTime justHitCeiling < COLLISION_COOLDOWN_MS \<and>
   lastCollisionPipeId justHitCeiling = - 1 \<and>
   lives justHitCeiling = 3 \<and> lives (Tick_apply justHitCeiling) = 2 \<and>
   lastCollisionPipeId (Tick_apply justHitCeiling) = - 1"
proof -
  have h: "gameStarted justHitCeiling" "\<not> gameEnd justHitCeiling" "\<not> isPaused justHitCeiling"
    "\<not> countdown justHitCeiling > 0"
    by (simp_all add: justHitCeiling_def initialState_def)
  have b: "tick_boundaryCollision justHitCeiling"
    by (simp add: tick_boundaryCollision_def justHitCeiling_bird checkBoundaryCollision_def)
  have p: "pipes justHitCeiling = []"
    by (simp add: justHitCeiling_def initialState_def)
  have c: "tick_collidedPipe justHitCeiling = None"
    by (simp add: tick_collidedPipe_def no_pipes_scored [OF p])
  have v: "time justHitCeiling = 1000" "lastCollisionTime justHitCeiling = 1000"
    "lastCollisionPipeId justHitCeiling = - 1" "lives justHitCeiling = 3"
    by (simp_all add: justHitCeiling_def initialState_def INITIAL_LIVES_def)
  show ?thesis
    using h b c boundary_bypasses_cooldown [OF h b c]
    by (simp add: v constants_defs)
qed

subsection \<open>Game over\<close>

text \<open>
  C4.  Game-over transition, as the code has it: in a running state that is not paused
  and not counting down, with \<open>lives = 1\<close>, a tick with a damage collision yields
  \<open>lives = 0\<close> and \<open>gameEnd = True\<close>.  A damage collision is a physical collision
  (with a pipe or a boundary) that passes the cooldown gate: \<open>COLLISION_COOLDOWN_MS\<close>
  have passed since the last damage, or the first collided pipe is not the pipe of the
  last damage (always so when only a boundary is hit).
\<close>

theorem game_over_on_damage:
  assumes "gameStarted s" and "\<not> gameEnd s" and "\<not> isPaused s" and "\<not> countdown s > 0"
    and "lives s = 1" and "tick_hasDamageCollision s"
  shows "lives (Tick_apply s) = 0 \<and> gameEnd (Tick_apply s)"
proof -
  have g: "gameplay s" using assms by (simp add: gameplay_def)
  have l: "lives (Tick_apply s) = 0"
    using Tick_lives [OF g] assms by simp
  have "tick_hasPhysicalCollision s"
    using assms(6) by (simp add: tick_hasDamageCollision_def)
  then show ?thesis
    using Tick_gameEnd [OF g] l by simp
qed

text \<open>
  Witness: the state of the test suite, one life left and the bird inside pipe 1.
\<close>

theorem game_over_on_damage_witness:
  "gameStarted gameOverState \<and> \<not> gameEnd gameOverState \<and> \<not> isPaused gameOverState \<and>
   \<not> countdown gameOverState > 0 \<and> lives gameOverState = 1 \<and>
   tick_hasDamageCollision gameOverState \<and>
   lives (Tick_apply gameOverState) = 0 \<and> gameEnd (Tick_apply gameOverState)"
proof -
  have h: "gameStarted gameOverState" "\<not> gameEnd gameOverState" "\<not> isPaused gameOverState"
    "\<not> countdown gameOverState > 0" "lives gameOverState = 1"
    by (simp_all add: gameOverState_def collisionState_def initialState_def)
  have d: "tick_hasDamageCollision gameOverState"
    by (simp add: gameOverState_def collisionState_def collidingPipe_def tick_defs model_defs)
  show ?thesis
    using h d game_over_on_damage [OF h d] by simp
qed

text \<open>
  A physical collision alone is not enough: in \<open>afterFirstHit\<close> one life is left and
  the bird is inside pipe 1, but pipe 1 did the damage 16 ms before, so the tick only
  bounces the bird; the life stays and the game goes on.
\<close>

theorem game_over_physical_counterexample:
  "gameStarted afterFirstHit \<and> \<not> gameEnd afterFirstHit \<and> \<not> isPaused afterFirstHit \<and>
   \<not> countdown afterFirstHit > 0 \<and> lives afterFirstHit = 1 \<and>
   tick_hasPhysicalCollision afterFirstHit \<and>
   \<not> (lives (Tick_apply afterFirstHit) = 0 \<and> gameEnd (Tick_apply afterFirstHit))"
  by (simp add: afterFirstHit_lives tick_hasPhysicalCollision_def afterFirstHit_collidedPipe)
     (simp add: afterFirstHit_eq)

subsection \<open>Score\<close>

lemma enumerate_map_nth:
  "enumerate 0 (map f ps) = map (\<lambda>i. (i, f (ps ! i))) [0..<length ps]"
  by (rule nth_equalityI) (simp_all add: nth_enumerate_eq)

lemma zip_map_self: "zip ps (map f ps) = map (\<lambda>p. (p, f p)) ps"
  by (induction ps) simp_all

lemma newly_passed_count:
  "length (filter (\<lambda>(index, pipe). Q pipe (ps ! index)) (enumerate 0 (map f ps))) =
   length (filter (\<lambda>p. Q (f p) p) ps)"
proof -
  have "filter (\<lambda>(index, pipe). Q pipe (ps ! index)) (enumerate 0 (map f ps)) =
        map (\<lambda>i. (i, f (ps ! i))) (filter (\<lambda>i. Q (f (ps ! i)) (ps ! i)) [0..<length ps])"
    by (simp add: enumerate_map_nth filter_map comp_def)
  then have "length (filter (\<lambda>(index, pipe). Q pipe (ps ! index)) (enumerate 0 (map f ps))) =
        length (filter (\<lambda>i. Q (f (ps ! i)) (ps ! i)) [0..<length ps])"
    by simp
  also have "\<dots> = length (filter (\<lambda>p. Q (f p) p) (map (\<lambda>i. ps ! i) [0..<length ps]))"
    by (simp add: filter_map comp_def)
  also have "map (\<lambda>i. ps ! i) [0..<length ps] = ps"
    by (rule map_nth)
  finally show ?thesis .
qed

lemma updateScore_score:
  "sr_score (updateScore b ps c) =
     c + real (length (filter (\<lambda>p. \<not> passed p \<and> vec_x (pos b) > pipe_x p + width p) ps))"
proof -
  define mark :: "Pipe \<Rightarrow> Pipe" where
    "mark = (\<lambda>pipe. if \<not> passed pipe \<and> vec_x (pos b) > pipe_x pipe + width pipe
                     then pipe\<lparr>passed := True\<rparr> else pipe)"
  have "sr_score (updateScore b ps c) =
     c + real (length (filter (\<lambda>(index, pipe). passed pipe \<and> \<not> passed (ps ! index))
                         (enumerate 0 (map mark ps))))"
    by (simp add: updateScore_def Let_def mark_def)
  also have "length (filter (\<lambda>(index, pipe). passed pipe \<and> \<not> passed (ps ! index))
                         (enumerate 0 (map mark ps))) =
             length (filter (\<lambda>p. passed (mark p) \<and> \<not> passed p) ps)"
    by (rule newly_passed_count [of "\<lambda>new old. passed new \<and> \<not> passed old" ps mark])
  also have "(\<lambda>p. passed (mark p) \<and> \<not> passed p) =
             (\<lambda>p. \<not> passed p \<and> vec_x (pos b) > pipe_x p + width p)"
    by (auto simp add: mark_def)
  finally show ?thesis .
qed

lemma updateScore_flips:
  "length (filter (\<lambda>(before, after). \<not> passed before \<and> passed after)
             (zip ps (sr_pipes (updateScore b ps c)))) =
   length (filter (\<lambda>p. \<not> passed p \<and> vec_x (pos b) > pipe_x p + width p) ps)"
proof -
  have "filter (\<lambda>(before, after). \<not> passed before \<and> passed after)
             (zip ps (sr_pipes (updateScore b ps c))) =
        map (\<lambda>p. (p, if \<not> passed p \<and> vec_x (pos b) > pipe_x p + width p
                         then p\<lparr>passed := True\<rparr> else p))
          (filter (\<lambda>p. \<not> passed p \<and> vec_x (pos b) > pipe_x p + width p) ps)"
    unfolding updateScore_def Let_def
    by (simp add: zip_map_self filter_map comp_def cong: filter_cong) 
  then show ?thesis by simp
qed

lemma updateScore_length: "length (sr_pipes (updateScore b ps c)) = length ps"
  by (simp add: updateScore_def Let_def)

text \<open>
  C5.  Score monotonicity.  The score after a tick is never below the score before.
  In a simulation tick the pipe list of the result is the moved and cleaned pipe list
  with the passed flags updated, pipe by pipe, and the score grows by exactly the
  number of positions where the flag is false in the moved and cleaned list and true
  in the result; when every pipe of that list is already passed the score stays.  A
  tick that does not run the simulation changes neither score nor pipes.
\<close>

theorem score_monotonicity:
  "score s \<le> score (Tick_apply s) \<and>
   (gameStarted s \<and> \<not> gameEnd s \<and> \<not> isPaused s \<and> \<not> countdown s > 0 \<longrightarrow>
      length (pipes (Tick_apply s)) = length (tick_cleanedPipes s) \<and>
      score (Tick_apply s) - score s =
        real (length (filter (\<lambda>(before, after). \<not> passed before \<and> passed after)
                        (zip (tick_cleanedPipes s) (pipes (Tick_apply s))))) \<and>
      ((\<forall>p \<in> set (tick_cleanedPipes s). passed p) \<longrightarrow> score (Tick_apply s) = score s)) \<and>
   (\<not> (gameStarted s \<and> \<not> gameEnd s \<and> \<not> isPaused s \<and> \<not> countdown s > 0) \<longrightarrow>
      score (Tick_apply s) = score s \<and> pipes (Tick_apply s) = pipes s)"
proof (cases "gameplay s")
  case False
  then show ?thesis
    using Tick_score_not_gameplay [OF False] by (auto simp add: gameplay_def)
next
  case True
  define n where
    "n = length (filter (\<lambda>p. \<not> passed p \<and>
            vec_x (pos (tick_updatedBird s)) > pipe_x p + width p) (tick_cleanedPipes s))"
  have sc: "score (Tick_apply s) = score s + real n"
    by (simp add: Tick_score [OF True] updateScore_score n_def)
  have fl: "length (filter (\<lambda>(before, after). \<not> passed before \<and> passed after)
                        (zip (tick_cleanedPipes s) (pipes (Tick_apply s)))) = n"
    by (simp add: Tick_pipes [OF True] tick_scoredPipes_def updateScore_flips n_def)
  have len: "length (pipes (Tick_apply s)) = length (tick_cleanedPipes s)"
    by (simp add: Tick_pipes [OF True] tick_scoredPipes_def updateScore_length)
  have z: "(\<forall>p \<in> set (tick_cleanedPipes s). passed p) \<Longrightarrow> n = 0"
    by (simp add: n_def)
  show ?thesis
    using True sc fl len z by (simp add: gameplay_def)
qed

text \<open>
  Witness: of three pipes, the first is already passed, the bird moves beyond the
  second in this tick and the third is ahead; the score goes from 0 to 1.  The tick of
  the initial state, which is not started, leaves the score alone.
\<close>

theorem score_monotonicity_witness:
  "gameStarted scoringState \<and> \<not> gameEnd scoringState \<and> \<not> isPaused scoringState \<and>
   \<not> countdown scoringState > 0 \<and>
   map passed (tick_cleanedPipes scoringState) = [True, False, False] \<and>
   map passed (pipes (Tick_apply scoringState)) = [True, True, False] \<and>
   score scoringState = 0 \<and> score (Tick_apply scoringState) = 1 \<and>
   \<not> (gameStarted initialState \<and> \<not> gameEnd initialState \<and> \<not> isPaused initialState \<and>
      \<not> countdown initialState > 0) \<and>
   score (Tick_apply initialState) = score initialState"
proof -
  have h: "gameStarted scoringState \<and> \<not> gameEnd scoringState \<and> \<not> isPaused scoringState \<and>
    \<not> countdown scoringState > 0" "score scoringState = 0"
    by (simp_all add: scoringState_def initialState_def)
  have c: "map passed (tick_cleanedPipes scoringState) = [True, False, False]"
    by (simp add: scoringState_def tick_defs model_defs)
  have p: "map passed (pipes (Tick_apply scoringState)) = [True, True, False]"
    by (simp add: scoringState_def model_defs)
  have z: "length (filter (\<lambda>(before, after). \<not> passed before \<and> passed after)
              (zip (tick_cleanedPipes scoringState) (pipes (Tick_apply scoringState)))) = 1"
    by (simp add: scoringState_def tick_defs model_defs)
  have i: "\<not> (gameStarted initialState \<and> \<not> gameEnd initialState \<and> \<not> isPaused initialState \<and>
      \<not> countdown initialState > 0)"
    by (simp add: initialState_def)
  show ?thesis
    using h c p z i score_monotonicity [of scoringState] score_monotonicity [of initialState]
    by simp
qed

subsection \<open>The range of the random numbers\<close>

text \<open>
  C6.  The claim is that for every integer seed and \<open>min < max\<close> the value of
  \<open>randomBetween\<close> lies in \<open>[min, max)\<close>.  The code does not keep this for a negative
  seed: the remainder of a negative number is negative in JavaScript, so \<open>hash (-1)\<close>
  is \<open>-1103502900\<close>, the scaled value is negative and the result lies below \<open>min\<close>.
  With the range of the bounce velocity, from 4 to 7, the value at seed \<open>-1\<close> is
  about 2.46.
\<close>

theorem randomBetween_below_min:
  "rand_seed (randomBetween (- 1) BOUNCE_VELOCITY_MIN BOUNCE_VELOCITY_MAX) = - 1103502900 \<and>
   rand_value (randomBetween (- 1) BOUNCE_VELOCITY_MIN BOUNCE_VELOCITY_MAX)
     < BOUNCE_VELOCITY_MIN"
  by (simp add: model_defs)

text \<open>
  The value at seed \<open>-1\<close> for the range from 4 to 7, as a fraction.
\<close>

theorem randomBetween_below_min_witness:
  "rand_value (randomBetween (- 1) 4 7) = 5279425888 / 2147483647 \<and>
   rand_value (randomBetween (- 1) 4 7) < 4"
proof -
  have "rand_value (randomBetween (- 1) 4 7) = 5279425888 / 2147483647"
    by (simp add: randomBetween_def Let_def scale01_def hash_def to_double_def js_rem_def
          RNG_m_def RNG_a_def RNG_c_def)
  then show ?thesis
    using randomBetween_below_min
    by (simp add: BOUNCE_VELOCITY_MIN_def BOUNCE_VELOCITY_MAX_def)
qed

text \<open>
  For a seed that is a non-negative integer the hash is an integer from 0 to \<open>m - 1\<close>,
  also where the product is rounded, and the value lies in the closed interval from
  \<open>min\<close> to \<open>max\<close>.
\<close>

lemma round_half_even_nonneg: "0 \<le> q \<Longrightarrow> 0 \<le> round_half_even q"
  by (simp add: round_half_even_def Let_def)

lemma to_double_nonneg_int:
  assumes "0 \<le> n"
  shows "\<exists>n'. 0 \<le> n' \<and> to_double (real_of_int n) = real_of_int n'"
proof (cases "\<bar>real_of_int n\<bar> < 2 ^ 53")
  case True
  then have "to_double (real_of_int n) = real_of_int n" by (simp add: to_double_def)
  with assms show ?thesis by blast
next
  case False
  define e where "e = bit_length (nat \<lfloor>\<bar>real_of_int n\<bar>\<rfloor>) - 1"
  define r where "r = round_half_even (real_of_int n / 2 ^ (e - 52))"
  have "0 \<le> real_of_int n / 2 ^ (e - 52)" using assms by simp
  then have r: "0 \<le> r" unfolding r_def by (rule round_half_even_nonneg)
  have "to_double (real_of_int n) = 2 ^ (e - 52) * real_of_int r"
    using False by (simp add: to_double_def Let_def e_def r_def)
  also have "\<dots> = real_of_int (2 ^ (e - 52) * r)" by simp
  finally have "to_double (real_of_int n) = real_of_int (2 ^ (e - 52) * r)" .
  moreover have "0 \<le> 2 ^ (e - 52) * r" using r by simp
  ultimately show ?thesis by blast
qed

lemma js_rem_nonneg_int:
  assumes "0 \<le> n"
  shows "js_rem (real_of_int n) 2147483648 = real_of_int (n mod 2147483648)"
proof -
  have f: "\<lfloor>real_of_int n / 2147483648\<rfloor> = n div 2147483648"
    using floor_divide_of_int_eq [of n 2147483648, where ?'a = real] by simp
  have "js_rem (real_of_int n) 2147483648 =
        real_of_int n - 2147483648 * real_of_int (n div 2147483648)"
    using assms by (simp add: js_rem_def f)
  also have "\<dots> = real_of_int (n - 2147483648 * (n div 2147483648))"
    by simp
  also have "n - 2147483648 * (n div 2147483648) = n mod 2147483648"
    by (simp add: minus_mult_div_eq_mod)
  finally show ?thesis .
qed

lemma hash_of_nonneg_int:
  assumes "0 \<le> k"
  shows "\<exists>h. 0 \<le> h \<and> h \<le> 2147483647 \<and> hash (real_of_int k) = real_of_int h"
proof -
  have "RNG_a * real_of_int k = real_of_int (1103515245 * k)"
    by (simp add: RNG_a_def)
  moreover have "0 \<le> 1103515245 * k" using assms by simp
  ultimately obtain n1 where n1: "0 \<le> n1"
      "to_double (RNG_a * real_of_int k) = real_of_int n1"
    using to_double_nonneg_int [of "1103515245 * k"] by auto
  have "real_of_int n1 + RNG_c = real_of_int (n1 + 12345)"
    by (simp add: RNG_c_def)
  moreover have "0 \<le> n1 + 12345" using n1 by simp
  ultimately obtain n2 where n2: "0 \<le> n2"
      "to_double (real_of_int n1 + RNG_c) = real_of_int n2"
    using to_double_nonneg_int [of "n1 + 12345"] by auto
  have "hash (real_of_int k) = real_of_int (n2 mod 2147483648)"
    using js_rem_nonneg_int [OF n2(1)] by (simp add: hash_def n1 n2 RNG_m_def)
  moreover have "0 \<le> n2 mod 2147483648" "n2 mod 2147483648 \<le> 2147483647"
    by simp_all
  ultimately show ?thesis by blast
qed

lemma randomBetween_closed_range:
  assumes "0 \<le> k" and "lo < hi"
  shows "lo \<le> rand_value (randomBetween (real_of_int k) lo hi) \<and>
         rand_value (randomBetween (real_of_int k) lo hi) \<le> hi"
proof -
  obtain h where h: "0 \<le> h" "h \<le> 2147483647" "hash (real_of_int k) = real_of_int h"
    using hash_of_nonneg_int [OF assms(1)] by blast
  define u where "u = real_of_int h / 2147483647"
  have u: "0 \<le> u" "u \<le> 1" using h by (simp_all add: u_def)
  have v: "rand_value (randomBetween (real_of_int k) lo hi) = u * (hi - lo) + lo"
    by (simp add: randomBetween_def Let_def scale01_def RNG_m_def u_def h)
  have "0 \<le> u * (hi - lo)" using u assms(2) by simp
  moreover have "u * (hi - lo) \<le> 1 * (hi - lo)"
    using u assms(2) by (intro mult_right_mono) simp_all
  ultimately show ?thesis unfolding v by simp
qed

subsection \<open>Pause and countdown\<close>

text \<open>
  C7.  Pause and countdown sequence.  Take a run (started, not ended, not paused, game
  time not negative) at time 10000.  \<open>Pause\<close> gives \<open>isPaused = True\<close> and
  \<open>countdown = 0\<close>; \<open>Pause\<close> again gives \<open>isPaused = False\<close>, \<open>countdown = 3\<close> and
  \<open>countdownTime = 10000\<close>.  A tick of that state with the time set to 11000, 12000,
  13000 gives countdown 2, 1, 0, and none of these ticks changes \<open>gameTime\<close>.  The
  tick after the countdown has reached 0 adds one tick duration to \<open>gameTime\<close>, which
  is then above zero.
\<close>

theorem pause_countdown_sequence:
  assumes "gameStarted s" and "\<not> gameEnd s" and "\<not> isPaused s"
    and "time s = 10000" and "0 \<le> gameTime s"
  shows
   "(let paused = Pause_apply s;
         unpaused = Pause_apply paused;
         tick2 = Tick_apply (unpaused\<lparr>time := 11000\<rparr>);
         tick3 = Tick_apply (unpaused\<lparr>time := 12000\<rparr>);
         tick4 = Tick_apply (unpaused\<lparr>time := 13000\<rparr>)
     in isPaused paused \<and> countdown paused = 0 \<and>
        \<not> isPaused unpaused \<and> countdown unpaused = 3 \<and> countdownTime unpaused = 10000 \<and>
        countdown tick2 = 2 \<and> countdown tick3 = 1 \<and> countdown tick4 = 0 \<and>
        gameTime tick2 = gameTime s \<and> gameTime tick3 = gameTime s \<and>
        gameTime tick4 = gameTime s \<and>
        gameTime (Tick_apply tick4) = gameTime s + TICK_RATE_MS \<and>
        gameTime (Tick_apply tick4) > 0)"
proof -
  define paused where "paused = Pause_apply s"
  define unpaused where "unpaused = Pause_apply paused"
  have p: "paused = s\<lparr>isPaused := True, countdown := 0, countdownTime := 0\<rparr>"
    using assms by (simp add: paused_def Pause_apply_def)
  have u: "unpaused = s\<lparr>isPaused := False, countdown := 3, countdownTime := 10000\<rparr>"
    using assms by (simp add: unpaused_def p Pause_apply_def)
  have t: "Tick_apply (unpaused\<lparr>time := t\<rparr>) =
      unpaused\<lparr>time := t + 16,
        countdown := max 0 (3 - real_of_int \<lfloor>(t + 16 - 10000) / 1000\<rfloor>)\<rparr>" for t
    using assms
    by (subst Tick_countdown) (simp_all add: u tick_newTime_def constants_defs)
  have t2: "Tick_apply (unpaused\<lparr>time := 11000\<rparr>) = unpaused\<lparr>time := 11016, countdown := 2\<rparr>"
    by (simp add: t)
  have t3: "Tick_apply (unpaused\<lparr>time := 12000\<rparr>) = unpaused\<lparr>time := 12016, countdown := 1\<rparr>"
    by (simp add: t)
  have t4: "Tick_apply (unpaused\<lparr>time := 13000\<rparr>) = unpaused\<lparr>time := 13016, countdown := 0\<rparr>"
    by (simp add: t)
  have g: "gameplay (unpaused\<lparr>time := 13016, countdown := 0\<rparr>)"
    using assms by (simp add: gameplay_def u)
  have r: "gameTime (Tick_apply (unpaused\<lparr>time := 13016, countdown := 0\<rparr>)) = gameTime s + TICK_RATE_MS"
    using Tick_gameTime [OF g] by (simp add: u)
  show ?thesis
    unfolding Let_def paused_def [symmetric] unpaused_def [symmetric] t2 t3 t4 r
    using assms by (simp add: p u TICK_RATE_MS_def)
qed

text \<open>
  Witness: the run of the test suite, the initial state started at time 10000.
\<close>

theorem pause_countdown_sequence_witness:
  "gameStarted runningAt10000 \<and> \<not> gameEnd runningAt10000 \<and> \<not> isPaused runningAt10000 \<and>
   time runningAt10000 = 10000 \<and> 0 \<le> gameTime runningAt10000 \<and>
   countdown (Tick_apply ((Pause_apply (Pause_apply runningAt10000))\<lparr>time := 13000\<rparr>)) = 0 \<and>
   gameTime (Tick_apply (Tick_apply ((Pause_apply (Pause_apply runningAt10000))\<lparr>time := 13000\<rparr>))) = 16"
proof -
  have h: "gameStarted runningAt10000" "\<not> gameEnd runningAt10000" "\<not> isPaused runningAt10000"
    "time runningAt10000 = 10000" "0 \<le> gameTime runningAt10000"
    by (simp_all add: runningAt10000_def initialState_def)
  have g: "gameTime runningAt10000 = 0"
    by (simp add: runningAt10000_def initialState_def)
  show ?thesis
    using h pause_countdown_sequence [OF h] by (simp add: Let_def g TICK_RATE_MS_def)
qed

subsection \<open>Restart\<close>

text \<open>
  C8.  Restart preservation.  With a non-empty \<open>currentRun\<close>, \<open>Restart\<close> appends
  exactly the entry made of that run and the current time to \<open>gameHistory\<close>; with an
  empty one it leaves \<open>gameHistory\<close> as it is.  In both cases \<open>gameCount\<close> grows by
  one, \<open>pipeSpawnQueue\<close> and \<open>originalPipeSpawnQueue\<close> become the
  \<open>originalPipeSpawnQueue\<close> of the input, and all other fields are those of
  \<open>initialState\<close>: putting the initial values back into these four fields gives
  \<open>initialState\<close> itself.
\<close>

theorem restart_preservation:
  "(currentRun s \<noteq> [] \<longrightarrow>
      gameHistory (Restart_apply s) =
        gameHistory s @ [\<lparr>birdPositions = currentRun s, timestamp = time s\<rparr>]) \<and>
   (currentRun s = [] \<longrightarrow> gameHistory (Restart_apply s) = gameHistory s) \<and>
   gameCount (Restart_apply s) = gameCount s + 1 \<and>
   pipeSpawnQueue (Restart_apply s) = originalPipeSpawnQueue s \<and>
   originalPipeSpawnQueue (Restart_apply s) = originalPipeSpawnQueue s \<and>
   (Restart_apply s)
     \<lparr>pipeSpawnQueue := pipeSpawnQueue initialState,
      originalPipeSpawnQueue := originalPipeSpawnQueue initialState,
      gameHistory := gameHistory initialState,
      gameCount := gameCount initialState\<rparr> = initialState"
  by (simp add: Restart_apply_def Let_def initialState_def)

text \<open>
  Witness: the ended run of the test suite, with one recorded position, and the
  initial state, with none.
\<close>

theorem restart_preservation_witness:
  "currentRun endedRun \<noteq> [] \<and>
   gameHistory (Restart_apply endedRun) =
     [\<lparr>birdPositions = [\<lparr>vec_x = 100, vec_y = 200\<rparr>], timestamp = 0\<rparr>] \<and>
   currentRun initialState = [] \<and>
   gameHistory (Restart_apply initialState) = [] \<and>
   gameCount (Restart_apply endedRun) = 1"
  using restart_preservation [of endedRun] restart_preservation [of initialState]
  by (simp add: endedRun_def initialState_def)

subsection \<open>Ghost replay\<close>

lemma ghosts_append:
  "gameStarted s \<Longrightarrow>
   calculateGhostPositions (xs @ ys) f s =
     calculateGhostPositions xs f s @ calculateGhostPositions ys f s"
  by (simp add: calculateGhostPositions_def)

lemma ghosts_single:
  "gameStarted s \<Longrightarrow>
   calculateGhostPositions [e] f s =
     (if f < real (length (birdPositions e)) then [js_index (birdPositions e) f] else [])"
  by (simp add: calculateGhostPositions_def js_index_def)

text \<open>
  C9.  Ghost replay boundary.  Let the game be started and let \<open>e\<close> be an entry of the
  history, anywhere in it, with \<open>N\<close> recorded positions.  For a frame index
  \<open>i < N\<close> the result of \<open>calculateGhostPositions\<close> is the result for the entries
  before \<open>e\<close>, then the position of \<open>e\<close> at \<open>i\<close>, then the result for the entries
  after \<open>e\<close>; for a frame index of \<open>N\<close> or more, \<open>e\<close> contributes nothing.  A frame
  number below \<open>N\<close> that is not a natural number (negative or fractional; the frame
  stream never produces one) is not an index of the array: the slot of \<open>e\<close> is then
  \<open>undefined\<close>, not a position.  When the game is not started or the history is
  empty the result is empty, for every frame number.
\<close>

theorem ghost_replay_boundary:
  "(gameStarted s \<and> length (birdPositions e) = N \<and> i < N \<longrightarrow>
      calculateGhostPositions (before @ e # after) (real i) s =
        calculateGhostPositions before (real i) s @ [Position (birdPositions e ! i)] @
        calculateGhostPositions after (real i) s) \<and>
   (gameStarted s \<and> length (birdPositions e) = N \<and> real N \<le> f \<longrightarrow>
      calculateGhostPositions (before @ e # after) f s =
        calculateGhostPositions before f s @ calculateGhostPositions after f s) \<and>
   (gameStarted s \<and> length (birdPositions e) = N \<and> g < real N \<and> (\<forall>i. g \<noteq> real i) \<longrightarrow>
      calculateGhostPositions (before @ e # after) g s =
        calculateGhostPositions before g s @ [Undefined] @
        calculateGhostPositions after g s) \<and>
   (\<not> gameStarted s \<or> history = [] \<longrightarrow> calculateGhostPositions history f s = [])"
proof (intro conjI impI)
  assume a: "gameStarted s \<and> length (birdPositions e) = N \<and> i < N"
  have "calculateGhostPositions (before @ [e] @ after) (real i) s =
        calculateGhostPositions before (real i) s @ calculateGhostPositions [e] (real i) s @
        calculateGhostPositions after (real i) s"
    using a by (simp only: ghosts_append)
  moreover have "calculateGhostPositions [e] (real i) s = [Position (birdPositions e ! i)]"
    using a by (simp add: ghosts_single js_index_def)
  ultimately show "calculateGhostPositions (before @ e # after) (real i) s =
        calculateGhostPositions before (real i) s @ [Position (birdPositions e ! i)] @
        calculateGhostPositions after (real i) s"
    by simp
next
  assume a: "gameStarted s \<and> length (birdPositions e) = N \<and> real N \<le> f"
  have "calculateGhostPositions (before @ [e] @ after) f s =
        calculateGhostPositions before f s @ calculateGhostPositions [e] f s @
        calculateGhostPositions after f s"
    using a by (simp only: ghosts_append)
  moreover have "calculateGhostPositions [e] f s = []"
    using a by (simp add: ghosts_single)
  ultimately show "calculateGhostPositions (before @ e # after) f s =
        calculateGhostPositions before f s @ calculateGhostPositions after f s"
    by simp
next
  assume a: "gameStarted s \<and> length (birdPositions e) = N \<and> g < real N \<and> (\<forall>i. g \<noteq> real i)"
  have "calculateGhostPositions (before @ [e] @ after) g s =
        calculateGhostPositions before g s @ calculateGhostPositions [e] g s @
        calculateGhostPositions after g s"
    using a by (simp only: ghosts_append)
  moreover have "js_index (birdPositions e) g = Undefined"
  proof -
    have "\<not> (0 \<le> g \<and> real_of_int \<lfloor>g\<rfloor> = g)"
    proof
      assume b: "0 \<le> g \<and> real_of_int \<lfloor>g\<rfloor> = g"
      then have "0 \<le> \<lfloor>g\<rfloor>" by simp
      then have c: "real (nat \<lfloor>g\<rfloor>) = real_of_int \<lfloor>g\<rfloor>" by simp
      have "g = real (nat \<lfloor>g\<rfloor>)" using conjunct2 [OF b] c by linarith
      with a show False by blast
    qed
    then show ?thesis by (auto simp add: js_index_def)
  qed
  moreover have "calculateGhostPositions [e] g s = [js_index (birdPositions e) g]"
    using a by (simp add: ghosts_single)
  ultimately show "calculateGhostPositions (before @ e # after) g s =
        calculateGhostPositions before g s @ [Undefined] @
        calculateGhostPositions after g s"
    by simp
next
  assume "\<not> gameStarted s \<or> history = []"
  then show "calculateGhostPositions history f s = []"
    by (auto simp add: calculateGhostPositions_def)
qed

text \<open>
  Witness: the history of the test suite, one run of three positions: frame 2 shows
  its third position, frame 3 shows nothing, and nothing is shown before the start.
\<close>

theorem ghost_replay_boundary_witness:
  "gameStarted startedState \<and>
   calculateGhostPositions mockHistory 2 startedState = [Position \<lparr>vec_x = 12, vec_y = 15\<rparr>] \<and>
   calculateGhostPositions mockHistory 3 startedState = [] \<and>
   \<not> gameStarted initialState \<and>
   calculateGhostPositions mockHistory 0 initialState = []"
proof -
  have st: "gameStarted startedState" "\<not> gameStarted initialState"
    by (simp_all add: startedState_def initialState_def)
  have e: "calculateGhostPositions [] f startedState = []" for f
    by (simp add: calculateGhostPositions_def)
  show ?thesis
    using st
      ghost_replay_boundary [where s = startedState and e = "hd mockHistory" and N = 3
        and i = 2 and before = "[]" and after = "[]" and f = 3 and g = "- 1"
        and history = mockHistory]
      ghost_replay_boundary [where s = initialState and e = "hd mockHistory" and N = 3
        and i = 2 and before = "[]" and after = "[]" and f = 0 and g = "- 1"
        and history = mockHistory]
    by (simp add: mockHistory_def e)
qed

subsection \<open>Victory on an exhausted schedule\<close>

text \<open>
  C10.  In a running state that is not paused, with \<open>countdown = 0\<close>, whose schedule
  is used up (\<open>pipeSpawnIndex\<close> is at least the length of \<open>pipeSpawnQueue\<close>, as for an
  empty queue at index 0) and that has no pipes on screen, a tick without a fatal
  collision (if the bird collides, more than one life was left) yields
  \<open>gameEnd = True\<close> and \<open>gameWon = True\<close>.
\<close>

theorem empty_schedule_victory:
  assumes "gameStarted s" and "\<not> gameEnd s" and "\<not> isPaused s" and "countdown s = 0"
    and "pipeSpawnIndex s \<ge> real (length (pipeSpawnQueue s))"
    and "pipes s = []"
    and "tick_hasPhysicalCollision s \<longrightarrow> lives s - 1 > 0"
  shows "gameEnd (Tick_apply s) \<and> gameWon (Tick_apply s)"
proof -
  have g: "gameplay s" using assms by (simp add: gameplay_def)
  have sc: "tick_scoredPipes s = []" using assms(6) by (rule no_pipes_scored)
  have c: "tick_collidedPipe s = None" by (simp add: tick_collidedPipe_def sc)
  have d: "tick_hasPhysicalCollision s \<Longrightarrow> tick_hasDamageCollision s"
    by (simp add: tick_hasDamageCollision_def c)
  have l: "tick_hasPhysicalCollision s \<Longrightarrow> lives (Tick_apply s) > 0"
    using Tick_lives [OF g] d assms(7) by simp
  show ?thesis
    using Tick_gameEnd [OF g] Tick_gameWon [OF g] sc assms(5) l by simp
qed

text \<open>
  Witness: the initial state once started: empty schedule, no pipes, the bird in the
  middle of the canvas.
\<close>

theorem empty_schedule_victory_witness:
  "gameStarted startedState \<and> \<not> gameEnd startedState \<and> \<not> isPaused startedState \<and>
   countdown startedState = 0 \<and>
   pipeSpawnIndex startedState \<ge> real (length (pipeSpawnQueue startedState)) \<and>
   pipes startedState = [] \<and>
   lives startedState - 1 > 0 \<and>
   gameEnd (Tick_apply startedState) \<and> gameWon (Tick_apply startedState)"
proof -
  have h: "gameStarted startedState" "\<not> gameEnd startedState" "\<not> isPaused startedState"
    "countdown startedState = 0"
    "pipeSpawnIndex startedState \<ge> real (length (pipeSpawnQueue startedState))"
    "pipes startedState = []"
    by (simp_all add: startedState_def initialState_def)
  have l: "tick_hasPhysicalCollision startedState \<longrightarrow> lives startedState - 1 > 0"
    by (simp add: startedState_def initialState_def INITIAL_LIVES_def)
  have l': "lives startedState - 1 > 0"
    by (simp add: startedState_def initialState_def INITIAL_LIVES_def)
  show ?thesis
    using h l' empty_schedule_victory [OF h l] by simp
qed

end
